theory Spec2Isabelle
  imports Complex_Main
begin

section \<open>Tensors and errors\<close>

text \<open>
  The matrix recurrence of \<^verbatim>\<open>modeling_convnet.py\<close> and \<^verbatim>\<open>modeling_bergman.py\<close>,
  embedded over exact real arithmetic with \<^verbatim>\<open>complex_matrix = False\<close> (the default).
  A state tensor of shape \<^verbatim>\<open>[batch*heads, dim, 1]\<close> is a list of vectors, a matrix
  tensor of shape \<^verbatim>\<open>[batch*heads, dim, dim]\<close> a list of matrices (lists of rows), and
  the position-major tensor \<^verbatim>\<open>m\<close> of \<^verbatim>\<open>calculate_vectors\<close> a list of those.
\<close>

type_synonym vec = "real list"
type_synonym mat = "real list list"
type_synonym state = "vec list"

datatype error =
    KeyError
  | IndexError
  | TypeError
  | RuntimeError
  | ZeroDivisionError
  | UnboundLocalError
  | AssertionError string

section \<open>VectorPropagator: \<^verbatim>\<open>calculate_vectors\<close>\<close>

record propagator_config =
  num_matrix_heads :: nat
  matrix_dim :: nat
  norm_vectors :: bool
  vector_norm_eps :: real

text \<open>\<^verbatim>\<open>torch.bmm(m[i], v)\<close>: one matrix-vector product per batch-and-head entry.\<close>

definition matvec :: "mat \<Rightarrow> vec \<Rightarrow> vec" where
  "matvec a x = map (\<lambda>row. sum_list (map2 (*) row x)) a"

definition bmm :: "mat list \<Rightarrow> state \<Rightarrow> state" where
  "bmm ms vs = map2 matvec ms vs"

text \<open>\<^verbatim>\<open>torch.norm(new_v, dim=-2, keepdim=True)\<close> and the division by \<^verbatim>\<open>norm + eps\<close>.\<close>

definition l2norm :: "vec \<Rightarrow> real" where
  "l2norm x = sqrt (sum_list (map (\<lambda>a. a * a) x))"

definition renorm :: "real \<Rightarrow> vec \<Rightarrow> vec" where
  "renorm eps x = map (\<lambda>a. a / (l2norm x + eps)) x"

text \<open>
  The encoder's mask has shape \<^verbatim>\<open>[batch, 1, 1, T]\<close>, so \<^verbatim>\<open>attention_mask[..., i]\<close> is one
  number per batch row; it is a list of rows here. The state is viewed as
  \<^verbatim>\<open>[batch, 1, heads*dim]\<close>, hence entry \<open>j\<close> of the state belongs to batch row
  \<open>j div heads\<close>.
\<close>

definition mask_column :: "real list list \<Rightarrow> nat \<Rightarrow> real list" where
  "mask_column attention_mask i = map (\<lambda>row. row ! i) attention_mask"

definition mask_hold :: "nat \<Rightarrow> real list \<Rightarrow> state \<Rightarrow> state \<Rightarrow> state" where
  "mask_hold heads mask_i new_v v =
     map (\<lambda>j. map2 (\<lambda>a b. a * mask_i ! (j div heads) + b * (1 - mask_i ! (j div heads)))
                 (new_v ! j) (v ! j))
         [0..<length v]"

text \<open>One pass through the body of the loop, up to \<^verbatim>\<open>history.append\<close>.\<close>

definition new_state :: "'a propagator_config_scheme \<Rightarrow> mat list \<Rightarrow> state \<Rightarrow> state" where
  "new_state cfg m_i v =
     (let new_v = bmm m_i v
      in if norm_vectors cfg then map (renorm (vector_norm_eps cfg)) new_v else new_v)"

definition step :: "'a propagator_config_scheme \<Rightarrow> mat list list \<Rightarrow> real list list option
                    \<Rightarrow> state \<Rightarrow> nat \<Rightarrow> state" where
  "step cfg m attention_mask v i =
     (case attention_mask of
        None \<Rightarrow> new_state cfg (m ! i) v
      | Some am \<Rightarrow>
          mask_hold (num_matrix_heads cfg) (mask_column am i) (new_state cfg (m ! i) v) v)"

text \<open>The \<^verbatim>\<open>for i in order\<close> loop, with its two variables \<^verbatim>\<open>v\<close> and \<^verbatim>\<open>history\<close>.\<close>

fun scan :: "'a propagator_config_scheme \<Rightarrow> mat list list \<Rightarrow> real list list option \<Rightarrow> bool
             \<Rightarrow> state \<Rightarrow> state list \<Rightarrow> nat list \<Rightarrow> state list" where
  "scan cfg m attention_mask accumulate v history [] = history"
| "scan cfg m attention_mask accumulate v history (i # order) =
     (let history' = history @ [step cfg m attention_mask v i];
          v' = (if accumulate then last history' else v)
      in scan cfg m attention_mask accumulate v' history' order)"

text \<open>
  The initial vector. \<^verbatim>\<open>v[..., 0, :] = 1\<close> indexes row 0 of a dimension of size
  \<^verbatim>\<open>matrix_dim\<close> and raises when that is 0.
\<close>

definition init_vector :: "'a propagator_config_scheme \<Rightarrow> nat \<Rightarrow> string \<Rightarrow> error + state" where
  "init_vector cfg batch_sz init_type =
     (if init_type = ''one'' then
        (if matrix_dim cfg = 0 then Inl IndexError
         else Inr (replicate (batch_sz * num_matrix_heads cfg)
                             (1 # replicate (matrix_dim cfg - 1) 0)))
      else if init_type = ''all'' then
        Inr (replicate (batch_sz * num_matrix_heads cfg)
                       (replicate (matrix_dim cfg) (1 / sqrt (real (matrix_dim cfg)))))
      else Inl KeyError)"

definition scan_order :: "nat \<Rightarrow> bool \<Rightarrow> nat list" where
  "scan_order context_sz reverse_direction =
     (if \<not> reverse_direction then [0..<context_sz] else rev [0..<context_sz])"

text \<open>
  \<^verbatim>\<open>batch_sz\<close> and \<^verbatim>\<open>context_sz\<close> are the two leading sizes of \<^verbatim>\<open>hidden_states\<close>, the
  only use the routine makes of that argument.
\<close>

definition calculate_vectors ::
  "'a propagator_config_scheme \<Rightarrow> nat \<Rightarrow> nat \<Rightarrow> mat list list \<Rightarrow> real list list option
   \<Rightarrow> bool \<Rightarrow> string \<Rightarrow> bool \<Rightarrow> error + state list" where
  "calculate_vectors cfg batch_sz context_sz m attention_mask accumulate init_type
                     reverse_direction =
     (case init_vector cfg batch_sz init_type of
        Inl e \<Rightarrow> Inl e
      | Inr v \<Rightarrow>
          Inr (scan cfg m attention_mask accumulate v [v]
                    (scan_order context_sz reverse_direction)))"

subsection \<open>Auxiliary notions for the proofs\<close>

text \<open>
  The states appended by an accumulating scan, as a function of the state it starts from,
  and the shapes \<^verbatim>\<open>[batch*heads, dim, 1]\<close> and \<^verbatim>\<open>[T, batch*heads, dim, dim]\<close> that
  \<^verbatim>\<open>forward\<close> hands to the routine.
\<close>

fun run :: "'a propagator_config_scheme \<Rightarrow> mat list list \<Rightarrow> real list list option \<Rightarrow> state \<Rightarrow> nat list \<Rightarrow> state list" where
  "run cfg m am v [] = []"
| "run cfg m am v (i # order) = step cfg m am v i # run cfg m am (step cfg m am v i) order"

definition state_ok :: "nat \<Rightarrow> nat \<Rightarrow> state \<Rightarrow> bool" where
  "state_ok n d v = (length v = n \<and> (\<forall>x \<in> set v. length x = d))"

definition mats_ok :: "nat \<Rightarrow> nat \<Rightarrow> mat list \<Rightarrow> bool" where
  "mats_ok n d ms = (length ms = n \<and> (\<forall>a \<in> set ms. length a = d))"

definition well_shaped :: "'a propagator_config_scheme \<Rightarrow> nat \<Rightarrow> nat \<Rightarrow> mat list list \<Rightarrow> bool" where
  "well_shaped cfg batch_sz context_sz m =
     (length m = context_sz \<and>
      (\<forall>ms \<in> set m. mats_ok (batch_sz * num_matrix_heads cfg) (matrix_dim cfg) ms))"

section \<open>MatrixNormalizer: the \<^verbatim>\<open>"det"\<close> branch\<close>

text \<open>
  \<^verbatim>\<open>torch.det\<close> is library code; it is taken as the determinant, computed here by
  expansion along the first row.
\<close>

definition minor_cols :: "nat \<Rightarrow> mat \<Rightarrow> mat" where
  "minor_cols j rows = map (\<lambda>row. take j row @ drop (Suc j) row) rows"

function det :: "mat \<Rightarrow> real" where
  "det [] = 1"
| "det (r # rs) =
     sum_list (map (\<lambda>j. (- 1) ^ j * r ! j * det (minor_cols j rs)) [0..<length r])"
  by pat_completeness auto
termination
  by (relation "measure length") (auto simp: minor_cols_def)

record normalizer_config =
  encoder_matrix_dim :: nat
  matrix_norm_eps :: real

text \<open>
  The branch \<^verbatim>\<open>elif self.matrix_norm_alg == "det"\<close> of \<^verbatim>\<open>ConvnetMatrixEncoder.forward\<close>
  (\<^verbatim>\<open>BergmanMatrixLayer.predict_matrix\<close> has the same lines), on the tensor
  \<^verbatim>\<open>[T, batch, heads, dim, dim]\<close>. Detaching the determinant changes gradients only, not
  the value computed. \<^verbatim>\<open>1 / self.matrix_dim\<close> is Python's division and raises for 0;
  \<open>encoder_matrix_dim\<close> is the attribute \<^verbatim>\<open>matrix_dim\<close> of the matrix encoder.
\<close>

definition det_denominator :: "normalizer_config \<Rightarrow> mat \<Rightarrow> real" where
  "det_denominator cfg a =
     \<bar>det a\<bar> powr (1 / real (encoder_matrix_dim cfg)) + matrix_norm_eps cfg"

definition det_norm ::
  "normalizer_config \<Rightarrow> mat list list list \<Rightarrow> error + mat list list list" where
  "det_norm cfg m =
     (if encoder_matrix_dim cfg = 0 then Inl ZeroDivisionError
      else Inr (map (map (map (\<lambda>a. map (map (\<lambda>x. x / det_denominator cfg a)) a))) m))"

section \<open>MatrixNormalizer: \<^verbatim>\<open>make_orthogonal\<close>\<close>

text \<open>
  Square matrices of side \<open>n\<close> (\<^verbatim>\<open>matrix_dim\<close>) with the tensor operations that
  \<^verbatim>\<open>make_orthogonal\<close> applies to them: the product \<^verbatim>\<open>@\<close>, \<^verbatim>\<open>diagonal\<close>,
  \<^verbatim>\<open>torch.diag_embed\<close> and the identity.
\<close>

definition square :: "nat \<Rightarrow> mat \<Rightarrow> bool" where
  "square n a = (length a = n \<and> (\<forall>row \<in> set a. length row = n))"

definition matmul :: "nat \<Rightarrow> mat \<Rightarrow> mat \<Rightarrow> mat" where
  "matmul n a b =
     map (\<lambda>i. map (\<lambda>j. sum_list (map (\<lambda>k. a ! i ! k * b ! k ! j) [0..<n])) [0..<n]) [0..<n]"

definition mat_transpose :: "nat \<Rightarrow> mat \<Rightarrow> mat" where
  "mat_transpose n a = map (\<lambda>i. map (\<lambda>j. a ! j ! i) [0..<n]) [0..<n]"

definition diagonal :: "nat \<Rightarrow> mat \<Rightarrow> vec" where
  "diagonal n a = map (\<lambda>i. a ! i ! i) [0..<n]"

definition diag_embed :: "nat \<Rightarrow> vec \<Rightarrow> mat" where
  "diag_embed n v = map (\<lambda>i. map (\<lambda>j. if i = j then v ! i else 0) [0..<n]) [0..<n]"

definition eye :: "nat \<Rightarrow> mat" where
  "eye n = map (\<lambda>i. map (\<lambda>j. if i = j then 1 else 0) [0..<n]) [0..<n]"

text \<open>
  \<^verbatim>\<open>torch.linalg.qr\<close> is library code. Its result for a square matrix \<open>z\<close> is a pair
  \<open>(q, r)\<close> with \<open>q\<close> orthogonal, \<open>r\<close> upper triangular and \<open>q @ r = z\<close>; the pair is a
  parameter of the model, and this is what is known of it.
\<close>

definition orthogonal :: "nat \<Rightarrow> mat \<Rightarrow> bool" where
  "orthogonal n q =
     (square n q \<and> matmul n q (mat_transpose n q) = eye n
                 \<and> matmul n (mat_transpose n q) q = eye n)"

definition upper_triangular :: "nat \<Rightarrow> mat \<Rightarrow> bool" where
  "upper_triangular n r = (\<forall>i<n. \<forall>j<i. r ! i ! j = 0)"

definition is_qr :: "nat \<Rightarrow> mat \<Rightarrow> mat \<Rightarrow> mat \<Rightarrow> bool" where
  "is_qr n z q r =
     (orthogonal n q \<and> square n r \<and> upper_triangular n r \<and> matmul n q r = z)"

text \<open>
  \<^verbatim>\<open>d / d.abs()\<close> in floating point: the quotient of zero by zero is not a number, which
  is \<open>None\<close> here, and it makes every product it enters not a number.
\<close>

definition unit_sign :: "real \<Rightarrow> real option" where
  "unit_sign d = (if \<bar>d\<bar> = 0 then None else Some (d / \<bar>d\<bar>))"

text \<open>
  \<^verbatim>\<open>make_orthogonal\<close> on one matrix of the batch, from the line after
  \<^verbatim>\<open>q, r = torch.linalg.qr(z)\<close> on; the last line scales column \<open>j\<close> of \<open>q\<close> by entry
  \<open>j\<close> of \<^verbatim>\<open>d / d.abs()\<close>.
\<close>

definition make_orthogonal :: "nat \<Rightarrow> mat \<Rightarrow> mat \<Rightarrow> real option list list" where
  "make_orthogonal n q r =
     (let s = diag_embed n (map sgn (diagonal n r));
          r' = matmul n s r;
          q' = matmul n q s;
          d = diagonal n r'
      in map (\<lambda>i. map (\<lambda>j. map_option (\<lambda>c. q' ! i ! j * c) (unit_sign (d ! j))) [0..<n])
             [0..<n])"

text \<open>The factor \<open>q\<close> with column \<open>j\<close> multiplied by the sign of \<open>r\<^sub>j\<^sub>j\<close>.\<close>

definition signed_q :: "nat \<Rightarrow> mat \<Rightarrow> mat \<Rightarrow> mat" where
  "signed_q n q r = map (\<lambda>i. map (\<lambda>j. q ! i ! j * sgn (r ! j ! j)) [0..<n]) [0..<n]"

section \<open>ContextAssembler: \<^verbatim>\<open>ConvnetMatrixLayer.forward\<close>\<close>

text \<open>
  \<^verbatim>\<open>ConvnetMatrixLayer.forward\<close>; \<^verbatim>\<open>BergmanMatrixLayer.forward\<close> is the same text with one
  matrix encoder. A history is turned into a tensor \<^verbatim>\<open>[batch, T, heads, dim]\<close>, a list
  nested four deep. The matrix encoders, which hold learned weights, are parameters: they
  return the normalized and the raw matrices, both of shape
  \<^verbatim>\<open>[T, batch, heads, dim, dim]\<close>. So is the network applied to the concatenated views
  when \<^verbatim>\<open>networks_for_heads\<close> is set.
\<close>

type_synonym tensor4 = "real list list list list"
type_synonym matrix_tensor = "mat list list list"

text \<open>
  A value stored in the dictionary \<^verbatim>\<open>available_vectors\<close>: a tensor, or a Python tuple of
  tensors.
\<close>

datatype pyval = Tensor tensor4 | Tuple "tensor4 list"

record layer_config = propagator_config +
  use_for_context :: "string list"
  vector_init_direction :: string
  networks_for_heads :: "string option"
  rl_lr_matrix_different :: bool
  is_decoder :: bool

record 'h layer_modules =
  matrix_encoder_lr :: "'h \<Rightarrow> error + (matrix_tensor \<times> matrix_tensor)"
  matrix_encoder_rl :: "'h \<Rightarrow> error + (matrix_tensor \<times> matrix_tensor)"
  v_to_hidden :: "tensor4 \<Rightarrow> real list list list"

record layer_output =
  context_output :: "real list list list"
  output_m :: "matrix_tensor option"
  output_v_global :: "tensor4 option"

text \<open>
  \<^verbatim>\<open>prepare_history_tensor\<close>: \<^verbatim>\<open>torch.stack\<close> refuses an empty list, and the \<^verbatim>\<open>view\<close> as
  \<^verbatim>\<open>[context_sz, batch_sz, heads, dim]\<close> needs as many elements as the stacked states
  have; the transposition then puts the batch first.
\<close>

definition prepare_history_tensor ::
  "'a propagator_config_scheme \<Rightarrow> state list \<Rightarrow> nat \<Rightarrow> nat \<Rightarrow> error + tensor4" where
  "prepare_history_tensor cfg history context_sz batch_sz =
     (let h = num_matrix_heads cfg; d = matrix_dim cfg
      in if history = [] then Inl RuntimeError
         else if length history * (batch_sz * h * d) \<noteq> context_sz * (batch_sz * h * d)
         then Inl RuntimeError
         else Inr (map (\<lambda>b. map (\<lambda>t. map (\<lambda>k. map (\<lambda>e. history ! t ! (b * h + k) ! e) [0..<d])
                                             [0..<h])
                                    [0..<context_sz])
                       [0..<batch_sz]))"

text \<open>\<^verbatim>\<open>v_global.view(batch_sz, 1, heads, dim).repeat(1, context_sz, 1, 1)\<close>.\<close>

definition repeat_global :: "'a propagator_config_scheme \<Rightarrow> state \<Rightarrow> nat \<Rightarrow> nat \<Rightarrow> tensor4" where
  "repeat_global cfg v context_sz batch_sz =
     (let h = num_matrix_heads cfg; d = matrix_dim cfg
      in map (\<lambda>b. replicate context_sz
                     (map (\<lambda>k. map (\<lambda>e. v ! (b * h + k) ! e) [0..<d]) [0..<h]))
             [0..<batch_sz])"

text \<open>The three blocks that fill \<^verbatim>\<open>available_vectors\<close>; the first also binds \<^verbatim>\<open>v_global\<close>.\<close>

definition lr_block ::
  "'a layer_config_scheme \<Rightarrow> nat \<Rightarrow> nat \<Rightarrow> mat list list \<Rightarrow> real list list option
   \<Rightarrow> (string \<rightharpoonup> pyval) \<Rightarrow> error + ((string \<rightharpoonup> pyval) \<times> tensor4 option)" where
  "lr_block cfg batch_sz context_sz m_norm_lr attention_mask available_vectors =
     (if set [''global'', ''lr'', ''lr_excl''] \<inter> set (use_for_context cfg) \<noteq> {} then
        (case calculate_vectors cfg batch_sz context_sz m_norm_lr attention_mask True
                (vector_init_direction cfg) False of
           Inl e \<Rightarrow> Inl e
         | Inr v_lr \<Rightarrow>
             (case prepare_history_tensor cfg (butlast v_lr) context_sz batch_sz of
                Inl e \<Rightarrow> Inl e
              | Inr v_lr_excl \<Rightarrow>
                  (case prepare_history_tensor cfg (tl v_lr) context_sz batch_sz of
                     Inl e \<Rightarrow> Inl e
                   | Inr v_lr' \<Rightarrow>
                       (let v_global = repeat_global cfg (last v_lr) context_sz batch_sz
                        in Inr (available_vectors
                                  (''lr_excl'' \<mapsto> Tensor v_lr_excl,
                                   ''lr'' \<mapsto> Tensor v_lr',
                                   ''global'' \<mapsto> Tensor v_global),
                                Some v_global)))))
      else Inr (available_vectors, None))"

definition rl_block ::
  "'a layer_config_scheme \<Rightarrow> nat \<Rightarrow> nat \<Rightarrow> mat list list \<Rightarrow> real list list option
   \<Rightarrow> (string \<rightharpoonup> pyval) \<Rightarrow> error + (string \<rightharpoonup> pyval)" where
  "rl_block cfg batch_sz context_sz m_norm_rl attention_mask available_vectors =
     (if set [''rl'', ''rl_excl''] \<inter> set (use_for_context cfg) \<noteq> {} then
        (case calculate_vectors cfg batch_sz context_sz m_norm_rl attention_mask True
                (vector_init_direction cfg) True of
           Inl e \<Rightarrow> Inl e
         | Inr v_rl \<Rightarrow>
             (case prepare_history_tensor cfg (rev (tl v_rl)) context_sz batch_sz of
                Inl e \<Rightarrow> Inl e
              | Inr v_rl' \<Rightarrow>
                  (case prepare_history_tensor cfg (rev (butlast v_rl)) context_sz batch_sz of
                     Inl e \<Rightarrow> Inl e
                   | Inr v_rl_excl \<Rightarrow>
                       Inr (available_vectors
                              (''rl'' \<mapsto> Tensor v_rl',
                               ''rl_excl'' \<mapsto> Tensor v_rl_excl)))))
      else Inr available_vectors)"

definition local_block ::
  "'a layer_config_scheme \<Rightarrow> nat \<Rightarrow> nat \<Rightarrow> mat list list \<Rightarrow> real list list option
   \<Rightarrow> (string \<rightharpoonup> pyval) \<Rightarrow> error + (string \<rightharpoonup> pyval)" where
  "local_block cfg batch_sz context_sz m_norm_lr attention_mask available_vectors =
     (if set [''local'', ''local_l'', ''local_r''] \<inter> set (use_for_context cfg) \<noteq> {} then
        (case calculate_vectors cfg batch_sz context_sz m_norm_lr attention_mask False
                (vector_init_direction cfg) False of
           Inl e \<Rightarrow> Inl e
         | Inr v_local \<Rightarrow>
             (let v_local_shift_r = butlast v_local;
                  v_local_shift_l = drop 2 v_local @ [v_local ! 0]
              in case prepare_history_tensor cfg (tl v_local) context_sz batch_sz of
                   Inl e \<Rightarrow> Inl e
                 | Inr v_local' \<Rightarrow>
                     (case prepare_history_tensor cfg v_local_shift_l context_sz batch_sz of
                        Inl e \<Rightarrow> Inl e
                      | Inr v_local_shift_l' \<Rightarrow>
                          (case prepare_history_tensor cfg v_local_shift_r context_sz batch_sz of
                             Inl e \<Rightarrow> Inl e
                           | Inr v_local_shift_r' \<Rightarrow>
                               Inr (available_vectors
                                      (''local'' \<mapsto> Tuple [v_local'],
                                       ''local_r'' \<mapsto> Tensor v_local_shift_r',
                                       ''local_l'' \<mapsto> Tensor v_local_shift_l'))))))
      else Inr available_vectors)"

text \<open>\<^verbatim>\<open>[available_vectors[s] for s in self.use_for_context]\<close>.\<close>

fun lookup_context :: "(string \<rightharpoonup> pyval) \<Rightarrow> string list \<Rightarrow> error + pyval list" where
  "lookup_context available_vectors [] = Inr []"
| "lookup_context available_vectors (s # ss) =
     (case available_vectors s of
        None \<Rightarrow> Inl KeyError
      | Some x \<Rightarrow>
          (case lookup_context available_vectors ss of
             Inl e \<Rightarrow> Inl e
           | Inr xs \<Rightarrow> Inr (x # xs)))"

text \<open>
  \<^verbatim>\<open>torch.concatenate(context, axis=-1)\<close> takes a non-empty sequence of tensors; an
  element that is not a tensor is a type error.
\<close>

fun tensors_of :: "pyval list \<Rightarrow> error + tensor4 list" where
  "tensors_of [] = Inr []"
| "tensors_of (Tensor t # xs) =
     (case tensors_of xs of Inl e \<Rightarrow> Inl e | Inr ts \<Rightarrow> Inr (t # ts))"
| "tensors_of (Tuple ts # xs) = Inl TypeError"

definition cat_last :: "tensor4 \<Rightarrow> tensor4 \<Rightarrow> tensor4" where
  "cat_last x y = map2 (map2 (map2 (@))) x y"

definition concatenate :: "pyval list \<Rightarrow> error + tensor4" where
  "concatenate context =
     (case tensors_of context of
        Inl e \<Rightarrow> Inl e
      | Inr [] \<Rightarrow> Inl RuntimeError
      | Inr (t # ts) \<Rightarrow> Inr (foldl cat_last t ts))"

text \<open>
  The end of \<^verbatim>\<open>forward\<close>: the head networks (\<^verbatim>\<open>x.flatten(-2)\<close> when there are none) and
  the tuple of outputs. \<^verbatim>\<open>v_global\<close> is bound only if the first block ran.
\<close>

definition assemble_outputs ::
  "'a layer_config_scheme \<Rightarrow> 'h layer_modules \<Rightarrow> tensor4 \<Rightarrow> matrix_tensor \<Rightarrow> tensor4 option
   \<Rightarrow> bool \<Rightarrow> error + layer_output" where
  "assemble_outputs cfg self x m v_global output_matrices =
     (let x' = (case networks_for_heads cfg of
                  None \<Rightarrow> map (map concat) x
                | Some n \<Rightarrow> v_to_hidden self x)
      in if is_decoder cfg \<and> v_global = None then Inl UnboundLocalError
         else Inr \<lparr>context_output = x',
                   output_m = (if output_matrices then Some m else None),
                   output_v_global = (if is_decoder cfg then v_global else None)\<rparr>)"

definition forward ::
  "'a layer_config_scheme \<Rightarrow> 'h layer_modules \<Rightarrow> nat \<Rightarrow> nat \<Rightarrow> 'h
   \<Rightarrow> real list list option \<Rightarrow> 'k option \<Rightarrow> 'h option \<Rightarrow> real list list option
   \<Rightarrow> 'p option \<Rightarrow> bool \<Rightarrow> error + layer_output" where
  "forward cfg self batch_sz context_sz hidden_states attention_mask head_mask
           encoder_hidden_states encoder_attention_mask past_vector output_matrices =
     (if encoder_hidden_states \<noteq> None then Inl (AssertionError ''Not implemented'')
      else if encoder_attention_mask \<noteq> None then Inl (AssertionError ''Not implemented'')
      else if head_mask \<noteq> None then Inl (AssertionError ''Not implemented'')
      else if past_vector \<noteq> None then Inl (AssertionError ''Not implemented'')
      else
        case matrix_encoder_lr self hidden_states of
          Inl e \<Rightarrow> Inl e
        | Inr (m_norm_lr5, m_lr) \<Rightarrow>
        (case (if rl_lr_matrix_different cfg then
                 (case matrix_encoder_rl self hidden_states of
                    Inl e \<Rightarrow> Inl e
                  | Inr (m_norm_rl5, m_rl) \<Rightarrow> Inr (map concat m_norm_rl5, m_lr @ m_rl))
               else Inr (map concat m_norm_lr5, m_lr)) of
           Inl e \<Rightarrow> Inl e
         | Inr (m_norm_rl, m) \<Rightarrow>
        (case lr_block cfg batch_sz context_sz (map concat m_norm_lr5) attention_mask Map.empty of
           Inl e \<Rightarrow> Inl e
         | Inr (av1, v_global) \<Rightarrow>
        (case rl_block cfg batch_sz context_sz m_norm_rl attention_mask av1 of
           Inl e \<Rightarrow> Inl e
         | Inr av2 \<Rightarrow>
        (case local_block cfg batch_sz context_sz (map concat m_norm_lr5) attention_mask av2 of
           Inl e \<Rightarrow> Inl e
         | Inr available_vectors \<Rightarrow>
        (case lookup_context available_vectors (use_for_context cfg) of
           Inl e \<Rightarrow> Inl e
         | Inr context \<Rightarrow>
        (case concatenate context of
           Inl e \<Rightarrow> Inl e
         | Inr x \<Rightarrow> assemble_outputs cfg self x m v_global output_matrices)))))))"

text \<open>The entry of \<^verbatim>\<open>available_vectors\<close> for a view, when the block returned.\<close>

definition view_of :: "error + (string \<rightharpoonup> pyval) \<Rightarrow> string \<Rightarrow> pyval option" where
  "view_of r s = (case r of Inl e \<Rightarrow> None | Inr available_vectors \<Rightarrow> available_vectors s)"

section \<open>EncoderStack: \<^verbatim>\<open>ConvnetMatrixBlock\<close>, \<^verbatim>\<open>ConvnetLayer\<close> and \<^verbatim>\<open>ConvnetEncoder\<close>\<close>

text \<open>
  The modules around the matrix layer. The dense, dropout and normalization sublayers are
  parameters; they keep the two leading sizes of the hidden states, which are therefore
  passed along unchanged. \<^verbatim>\<open>ConvnetLayer.__init__\<close> asserts that
  \<^verbatim>\<open>add_cross_attention\<close> is off, so the branch of the encoder that tests it is dead.
\<close>

record 'h block_modules =
  mm :: "'h layer_modules"
  matrix_output :: "real list list list \<Rightarrow> 'h \<Rightarrow> 'h"
  feed_forward_chunk :: "'h \<Rightarrow> 'h"

record 'h block_output =
  block_hidden :: 'h
  block_m :: "matrix_tensor option"
  block_v_global :: "tensor4 option"

definition matrix_block_forward ::
  "'a layer_config_scheme \<Rightarrow> 'h block_modules \<Rightarrow> nat \<Rightarrow> nat \<Rightarrow> 'h
   \<Rightarrow> real list list option \<Rightarrow> 'k option \<Rightarrow> 'h option \<Rightarrow> real list list option
   \<Rightarrow> 'p option \<Rightarrow> bool \<Rightarrow> error + 'h block_output" where
  "matrix_block_forward cfg self batch_sz context_sz hidden_states attention_mask head_mask
                        encoder_hidden_states encoder_attention_mask past_vector
                        output_matrices =
     (case forward cfg (mm self) batch_sz context_sz hidden_states attention_mask head_mask
                   encoder_hidden_states encoder_attention_mask past_vector output_matrices of
        Inl e \<Rightarrow> Inl e
      | Inr mm_outputs \<Rightarrow>
          Inr \<lparr>block_hidden = matrix_output self (context_output mm_outputs) hidden_states,
                block_m = output_m mm_outputs,
                block_v_global = output_v_global mm_outputs\<rparr>)"

text \<open>
  \<^verbatim>\<open>ConvnetLayer.forward\<close> calls the block without the two encoder arguments, which are
  therefore \<^verbatim>\<open>None\<close> there.
\<close>

definition layer_forward ::
  "'a layer_config_scheme \<Rightarrow> 'h block_modules \<Rightarrow> nat \<Rightarrow> nat \<Rightarrow> 'h
   \<Rightarrow> real list list option \<Rightarrow> 'k option \<Rightarrow> 'h option \<Rightarrow> real list list option
   \<Rightarrow> 'p option \<Rightarrow> bool \<Rightarrow> error + 'h block_output" where
  "layer_forward cfg self batch_sz context_sz hidden_states attention_mask head_mask
                 encoder_hidden_states encoder_attention_mask past_vector output_matrices =
     (if encoder_hidden_states \<noteq> None then Inl (AssertionError ''Not implemented'')
      else if encoder_attention_mask \<noteq> None then Inl (AssertionError ''Not implemented'')
      else
        case matrix_block_forward cfg self batch_sz context_sz hidden_states attention_mask
               head_mask None None past_vector output_matrices of
          Inl e \<Rightarrow> Inl e
        | Inr matrix_blk_output \<Rightarrow>
            Inr (matrix_blk_output
                   \<lparr>block_hidden := feed_forward_chunk self (block_hidden matrix_blk_output)\<rparr>))"

record 'h encoder_modules =
  input_convnet :: "('h \<Rightarrow> 'h) option"
  layer :: "'h block_modules list"
  gradient_checkpointing :: bool
  training :: bool

record 'h encoder_output =
  last_hidden_state :: 'h
  all_hidden_states :: "'h list option"
  all_matrices :: "matrix_tensor list option"

text \<open>\<^verbatim>\<open>xs[i] if xs is not None else None\<close>.\<close>

definition index_optional :: "'x list option \<Rightarrow> nat \<Rightarrow> error + 'x option" where
  "index_optional xs i =
     (case xs of
        None \<Rightarrow> Inr None
      | Some ys \<Rightarrow> if i < length ys then Inr (Some (ys ! i)) else Inl IndexError)"

text \<open>
  The loop over the layers, from layer \<open>i\<close> on. \<^verbatim>\<open>raise NotImplemented()\<close> calls the
  constant \<^verbatim>\<open>NotImplemented\<close>, which is not callable: the exception that reaches the
  caller is a type error. The head mask that reaches the encoder is a list with one entry
  (possibly \<^verbatim>\<open>None\<close>) per layer.
\<close>

fun encoder_layers ::
  "'a layer_config_scheme \<Rightarrow> bool \<Rightarrow> 'h block_modules list \<Rightarrow> nat \<Rightarrow> nat \<Rightarrow> nat \<Rightarrow> 'h
   \<Rightarrow> real list list option \<Rightarrow> 'k option list option \<Rightarrow> 'h option
   \<Rightarrow> real list list option \<Rightarrow> 'p list option \<Rightarrow> bool \<Rightarrow> bool \<Rightarrow> bool
   \<Rightarrow> 'h list \<Rightarrow> matrix_tensor list \<Rightarrow> error + ('h \<times> 'h list \<times> matrix_tensor list)" where
  "encoder_layers cfg checkpointing [] i batch_sz context_sz hidden_states attention_mask
                  head_mask encoder_hidden_states encoder_attention_mask past_vectors
                  use_cache output_matrices output_hidden_states all_hidden all_m =
     Inr (hidden_states, all_hidden, all_m)"
| "encoder_layers cfg checkpointing (layer_module # rest) i batch_sz context_sz hidden_states
                  attention_mask head_mask encoder_hidden_states encoder_attention_mask
                  past_vectors use_cache output_matrices output_hidden_states all_hidden all_m =
     (let all_hidden' = (if output_hidden_states then all_hidden @ [hidden_states]
                         else all_hidden)
      in case index_optional head_mask i of
           Inl e \<Rightarrow> Inl e
         | Inr layer_head_mask \<Rightarrow>
         (case index_optional past_vectors i of
            Inl e \<Rightarrow> Inl e
          | Inr past_vector \<Rightarrow>
          (let use_cache' = (if checkpointing then (if use_cache then False else use_cache)
                             else use_cache)
           in case layer_forward cfg layer_module batch_sz context_sz hidden_states
                     attention_mask (Option.bind layer_head_mask id) encoder_hidden_states
                     encoder_attention_mask past_vector output_matrices of
                Inl e \<Rightarrow> Inl e
              | Inr layer_outputs \<Rightarrow>
                  if use_cache' then Inl TypeError
                  else
                    encoder_layers cfg checkpointing rest (i + 1) batch_sz context_sz
                      (block_hidden layer_outputs) attention_mask head_mask
                      encoder_hidden_states encoder_attention_mask past_vectors use_cache'
                      output_matrices output_hidden_states all_hidden'
                      (if output_matrices then all_m @ [the (block_m layer_outputs)]
                       else all_m))))"

definition encoder_forward ::
  "'a layer_config_scheme \<Rightarrow> 'h encoder_modules \<Rightarrow> nat \<Rightarrow> nat \<Rightarrow> 'h
   \<Rightarrow> real list list option \<Rightarrow> 'k option list option \<Rightarrow> 'h option
   \<Rightarrow> real list list option \<Rightarrow> 'p list option \<Rightarrow> bool \<Rightarrow> bool \<Rightarrow> bool
   \<Rightarrow> error + 'h encoder_output" where
  "encoder_forward cfg self batch_sz context_sz hidden_states attention_mask head_mask
                   encoder_hidden_states encoder_attention_mask past_vectors use_cache
                   output_matrices output_hidden_states =
     (let hidden_states' = (case input_convnet self of
                              None \<Rightarrow> hidden_states
                            | Some f \<Rightarrow> f hidden_states)
      in case encoder_layers cfg (gradient_checkpointing self \<and> training self) (layer self) 0
                batch_sz context_sz hidden_states' attention_mask head_mask
                encoder_hidden_states encoder_attention_mask past_vectors use_cache
                output_matrices output_hidden_states [] [] of
           Inl e \<Rightarrow> Inl e
         | Inr (h, all_hidden, all_m) \<Rightarrow>
             Inr \<lparr>last_hidden_state = h,
                   all_hidden_states = (if output_hidden_states then Some (all_hidden @ [h])
                                        else None),
                   all_matrices = (if output_matrices then Some all_m else None)\<rparr>)"

text \<open>
  How \<^verbatim>\<open>ConvnetModel.forward\<close> settles \<^verbatim>\<open>use_cache\<close> before it calls the encoder: the
  argument, or the configuration's value when the argument is \<^verbatim>\<open>None\<close>, and always
  false outside the decoder configuration.
\<close>

definition resolve_use_cache :: "bool \<Rightarrow> bool option \<Rightarrow> bool \<Rightarrow> bool" where
  "resolve_use_cache decoder use_cache config_use_cache =
     (if decoder then (case use_cache of None \<Rightarrow> config_use_cache | Some u \<Rightarrow> u)
      else False)"

section \<open>AuxiliaryLossTerms: the loss of \<^verbatim>\<open>ConvnetForMaskedLM.forward\<close>\<close>

text \<open>
  The loss block of \<^verbatim>\<open>ConvnetForMaskedLM.forward\<close> (and of \<^verbatim>\<open>BergmanForMaskedLM.forward\<close>,
  which has the same text). The numbers computed by the framework's loss functions are
  inputs of a call: the cross entropy of the prediction scores, the mean squared error of
  the matrix norms, and, for each element of \<^verbatim>\<open>all_matrices\<close>, the term that the unitary
  loss adds for it (so that \<^verbatim>\<open>all_matrices\<close> is empty exactly when the list of these
  terms is). The only state is \<^verbatim>\<open>self.preheat_counter\<close>, a Python integer.
\<close>

record mlm_config =
  matrix_norm_loss_type :: "string option"
  matrix_norm_loss_axis :: "int list"
  matrix_norm_loss_k :: real
  matrix_unitary_loss_type :: "string option"
  matrix_unitary_loss_k :: real

record loss_inputs =
  labels_given :: bool
  cross_entropy :: real
  norm_mse :: real
  unitary_terms :: "real list"

record loss_report =
  loss :: real
  masked_lm_loss :: real
  matrix_norm_loss :: real
  matrix_unitary_loss :: real

text \<open>
  \<^verbatim>\<open>torch.concatenate(norms, axis=-1)\<close> needs a non-empty list, and the type of the loss is
  looked at after it.
\<close>

definition norm_loss :: "mlm_config \<Rightarrow> loss_inputs \<Rightarrow> error + real" where
  "norm_loss cfg inp =
     (case matrix_norm_loss_type cfg of
        None \<Rightarrow> Inr 0
      | Some t \<Rightarrow>
          if unitary_terms inp = [] \<or> matrix_norm_loss_axis cfg = [] then Inl RuntimeError
          else if t = ''MSE'' then Inr (norm_mse inp)
          else Inl KeyError)"

text \<open>The loop over \<^verbatim>\<open>all_matrices\<close> that adds one term for each of them.\<close>

fun unitary_loop :: "string \<Rightarrow> real \<Rightarrow> real list \<Rightarrow> error + real" where
  "unitary_loop t acc [] = Inr acc"
| "unitary_loop t acc (x # xs) =
     (if t = ''CrossEntropy'' then unitary_loop t (acc + x) xs
      else if t = ''MSE'' then unitary_loop t (acc + x) xs
      else Inl KeyError)"

definition unitary_loss :: "mlm_config \<Rightarrow> loss_inputs \<Rightarrow> error + real" where
  "unitary_loss cfg inp =
     (case matrix_unitary_loss_type cfg of
        None \<Rightarrow> Inr 0
      | Some t \<Rightarrow> unitary_loop t 0 (unitary_terms inp))"

text \<open>
  One call of \<^verbatim>\<open>forward\<close>: the new value of \<^verbatim>\<open>preheat_counter\<close> and, when labels are
  given, the loss and the metrics.
\<close>

definition masked_lm_forward ::
  "mlm_config \<Rightarrow> int \<Rightarrow> loss_inputs \<Rightarrow> error + (int \<times> loss_report option)" where
  "masked_lm_forward cfg preheat_counter inp =
     (if \<not> labels_given inp then Inr (preheat_counter, None)
      else
        case norm_loss cfg inp of
          Inl e \<Rightarrow> Inl e
        | Inr nl \<Rightarrow>
            (case unitary_loss cfg inp of
               Inl e \<Rightarrow> Inl e
             | Inr ul \<Rightarrow>
                 (let preheat = (preheat_counter > 0);
                      counter' = (if preheat then preheat_counter - 1 else preheat_counter);
                      mlm = (if preheat then 0 else cross_entropy inp)
                  in Inr (counter',
                          Some \<lparr>loss = mlm + nl * matrix_norm_loss_k cfg
                                           + ul * matrix_unitary_loss_k cfg,
                                 masked_lm_loss = mlm,
                                 matrix_norm_loss = nl,
                                 matrix_unitary_loss = ul\<rparr>))))"

text \<open>Successive calls on one model object; an exception ends the run.\<close>

fun forward_calls ::
  "mlm_config \<Rightarrow> int \<Rightarrow> loss_inputs list \<Rightarrow> error + (int \<times> loss_report option list)" where
  "forward_calls cfg preheat_counter [] = Inr (preheat_counter, [])"
| "forward_calls cfg preheat_counter (inp # inps) =
     (case masked_lm_forward cfg preheat_counter inp of
        Inl e \<Rightarrow> Inl e
      | Inr (counter', out) \<Rightarrow>
          (case forward_calls cfg counter' inps of
             Inl e \<Rightarrow> Inl e
           | Inr (counter'', outs) \<Rightarrow> Inr (counter'', out # outs)))"

text \<open>
  A call whose auxiliary losses can be computed: each configured loss type is one the code
  knows, and the norm loss has matrices to take norms of.
\<close>

definition losses_defined :: "mlm_config \<Rightarrow> loss_inputs \<Rightarrow> bool" where
  "losses_defined cfg inp =
     ((case matrix_norm_loss_type cfg of
         None \<Rightarrow> True
       | Some t \<Rightarrow> t = ''MSE'' \<and> unitary_terms inp \<noteq> [] \<and> matrix_norm_loss_axis cfg \<noteq> []) \<and>
      (case matrix_unitary_loss_type cfg of
         None \<Rightarrow> True
       | Some t \<Rightarrow> t = ''CrossEntropy'' \<or> t = ''MSE''))"

text \<open>The auxiliary part of the loss, and the report of a call made with a given counter.\<close>

definition auxiliary_loss :: "mlm_config \<Rightarrow> loss_inputs \<Rightarrow> real" where
  "auxiliary_loss cfg inp =
     (case matrix_norm_loss_type cfg of None \<Rightarrow> 0 | Some t \<Rightarrow> norm_mse inp)
       * matrix_norm_loss_k cfg
     + (case matrix_unitary_loss_type cfg of None \<Rightarrow> 0 | Some t \<Rightarrow> sum_list (unitary_terms inp))
       * matrix_unitary_loss_k cfg"

section \<open>Concrete inputs of the examples\<close>

text \<open>
  Modules for a batch of one sequence of two positions, one head and 1 by 1 matrices: the
  left-to-right encoder predicts the matrices 2 and 3, the right-to-left encoder 5 and 7,
  and the dense sublayers pass the hidden states through.
\<close>

definition example_modules :: "unit layer_modules" where
  "example_modules =
     \<lparr>matrix_encoder_lr = (\<lambda>h. Inr ([[[[[2]]]], [[[[3]]]]], [[[[[2]]]], [[[[3]]]]])),
      matrix_encoder_rl = (\<lambda>h. Inr ([[[[[5]]]], [[[[7]]]]], [[[[[5]]]], [[[[7]]]]])),
      v_to_hidden = map (map concat)\<rparr>"

definition example_layer :: "unit block_modules" where
  "example_layer =
     \<lparr>mm = example_modules, matrix_output = (\<lambda>x h. h), feed_forward_chunk = (\<lambda>h. h)\<rparr>"

definition example_config :: "string list \<Rightarrow> bool \<Rightarrow> bool \<Rightarrow> layer_config" where
  "example_config views different decoder =
     \<lparr>num_matrix_heads = 1, matrix_dim = 1, norm_vectors = False, vector_norm_eps = 0,
      use_for_context = views, vector_init_direction = ''one'', networks_for_heads = None,
      rl_lr_matrix_different = different, is_decoder = decoder\<rparr>"

section \<open>Properties of the vector propagation\<close>

lemma scan_accumulate: "scan cfg m am True v history order = history @ run cfg m am v order"
  by (induction order arbitrary: v history) (simp_all add: Let_def)

lemma scan_local: "scan cfg m am False v history order = history @ map (step cfg m am v) order"
  by (induction order arbitrary: history) (simp_all add: Let_def)

lemma length_run: "length (run cfg m am v order) = length order"
  by (induction order arbitrary: v) simp_all

lemma length_scan: "length (scan cfg m am acc v history order) = length history + length order"
  by (induction order arbitrary: v history) (simp_all add: Let_def)

lemma scan_nth_old: "k < length history \<Longrightarrow> scan cfg m am acc v history order ! k = history ! k"
  by (induction order arbitrary: v history) (simp_all add: Let_def nth_append)

lemma run_nth:
  "k < length order \<Longrightarrow>
   (v # run cfg m am v order) ! Suc k = step cfg m am ((v # run cfg m am v order) ! k) (order ! k)"
proof (induction order arbitrary: v k)
  case Nil then show ?case by simp
next
  case (Cons i order)
  show ?case
  proof (cases k)
    case 0 then show ?thesis by simp
  next
    case (Suc k')
    with Cons.prems have "k' < length order" by simp
    from Cons.IH[OF this, of "step cfg m am v i"] Suc show ?thesis by simp
  qed
qed

lemma length_scan_order: "length (scan_order T r) = T"
  by (simp add: scan_order_def)

lemma scan_order_nth: "k < T \<Longrightarrow> scan_order T r ! k = (if r then T - 1 - k else k)"
  by (simp add: scan_order_def rev_nth)

lemma init_vector_ok:
  "init_type = ''one'' \<and> 0 < matrix_dim cfg \<or> init_type = ''all'' \<Longrightarrow>
   \<exists>v0. init_vector cfg batch_sz init_type = Inr v0
        \<and> state_ok (batch_sz * num_matrix_heads cfg) (matrix_dim cfg) v0"
  by (auto simp: init_vector_def state_ok_def)

lemma l2norm_nonneg: "0 \<le> l2norm x"
  unfolding l2norm_def by (intro real_sqrt_ge_zero sum_list_nonneg) auto

lemma new_state_unfold:
  "new_state cfg m_i v =
     (if norm_vectors cfg
      then map (\<lambda>x. map (\<lambda>a. a / (l2norm x + vector_norm_eps cfg)) x) (bmm m_i v)
      else bmm m_i v)"
  by (simp add: new_state_def renorm_def Let_def cong: map_cong)

lemma new_state_shape:
  assumes "mats_ok n d ms" "state_ok n d v"
  shows "state_ok n d (new_state cfg ms v)"
  using assms
  by (auto simp: new_state_def Let_def state_ok_def mats_ok_def bmm_def matvec_def renorm_def
           dest!: set_zip_leftD)

lemma mask_hold_shape:
  assumes "state_ok n d new_v" "state_ok n d v"
  shows "state_ok n d (mask_hold h mi new_v v)"
  using assms by (auto simp: mask_hold_def state_ok_def)

lemma step_shape:
  assumes "mats_ok n d (m ! i)" "state_ok n d v" "h = num_matrix_heads cfg"
  shows "state_ok n d (step cfg m am v i)"
  using assms by (auto simp: step_def intro: new_state_shape mask_hold_shape split: option.splits)

lemma mask_hold_nth:
  assumes "state_ok n d new_v" "state_ok n d v" "j < n" "e < d"
  shows "mask_hold h mi new_v v ! j ! e =
         new_v ! j ! e * mi ! (j div h) + v ! j ! e * (1 - mi ! (j div h))"
  using assms by (simp add: mask_hold_def state_ok_def)

lemma mask_hold_zero:
  assumes "state_ok (b * h) d new_v" "state_ok (b * h) d v" "\<forall>r<b. mi ! r = 0"
  shows "mask_hold h mi new_v v = v"
proof (rule nth_equalityI)
  show "length (mask_hold h mi new_v v) = length v" by (simp add: mask_hold_def)
next
  fix j assume "j < length (mask_hold h mi new_v v)"
  then have j: "j < b * h" using assms(2) by (simp add: mask_hold_def state_ok_def)
  then have "j div h < b"
    by (metis less_mult_imp_div_less mult.commute)
  with assms(3) have z: "mi ! (j div h) = 0" by simp
  have len: "length (new_v ! j) = length (v ! j)"
    using assms(1,2) j by (simp add: state_ok_def)
  show "mask_hold h mi new_v v ! j = v ! j"
    using j assms(2) len z
    by (auto simp: mask_hold_def state_ok_def intro!: nth_equalityI)
qed

lemma run_shape:
  assumes "\<forall>i \<in> set order. mats_ok n d (m ! i)" "state_ok n d v" "k \<le> length order"
  shows "state_ok n d ((v # run cfg m am v order) ! k)"
  using assms
proof (induction order arbitrary: v k)
  case Nil then show ?case by simp
next
  case (Cons i order)
  show ?case
  proof (cases k)
    case 0 with Cons.prems show ?thesis by simp
  next
    case (Suc k')
    have "state_ok n d (step cfg m am v i)"
      using Cons.prems by (auto intro: step_shape)
    with Cons.IH[of "step cfg m am v i" k'] Cons.prems Suc show ?thesis by simp
  qed
qed

lemma run_cong:
  assumes "length o1 = length o2" "\<forall>k<length o1. m1 ! (o1 ! k) = m2 ! (o2 ! k)"
  shows "run cfg m1 None v o1 = run cfg m2 None v o2"
  using assms
proof (induction o1 o2 arbitrary: v rule: list_induct2)
  case Nil then show ?case by simp
next
  case (Cons a o1 b o2)
  from Cons.prems have h: "m1 ! a = m2 ! b" by force
  from Cons.prems have t: "\<forall>k<length o1. m1 ! (o1 ! k) = m2 ! (o2 ! k)" by force
  have s: "step cfg m1 None v a = step cfg m2 None v b" by (simp add: step_def h)
  show ?case using Cons.IH[OF t] s by simp
qed

lemma map_step_cong:
  assumes "length o1 = length o2" "\<forall>k<length o1. m1 ! (o1 ! k) = m2 ! (o2 ! k)"
  shows "map (step cfg m1 None v) o1 = map (step cfg m2 None v) o2"
  using assms
  by (auto simp: step_def intro!: nth_equalityI)

lemmas cv_eval = calculate_vectors_def init_vector_def scan_order_def step_def new_state_def
  bmm_def matvec_def mask_hold_def mask_column_def renorm_def l2norm_def Let_def upt_conv_Cons

lemma calc_accumulate:
  assumes "init_vector cfg B init_type = Inr v0"
  shows "calculate_vectors cfg B T m am True init_type r = Inr (v0 # run cfg m am v0 (scan_order T r))"
  using assms by (simp add: calculate_vectors_def scan_accumulate)

text \<open>
  Claim C1. For a valid \<^verbatim>\<open>init_type\<close>, \<^verbatim>\<open>calculate_vectors\<close> returns a history of
  exactly \<open>T + 1\<close> states whose entry 0 is the initial vector. In the forward scan with
  accumulation and without attention mask, entry \<open>i + 1\<close> is \<^verbatim>\<open>m[i] @ history[i]\<close>
  when \<^verbatim>\<open>norm_vectors\<close> is off, and that product with every state vector divided by
  its L2 norm plus \<^verbatim>\<open>vector_norm_eps\<close> when it is on; for a positive epsilon the
  divisor is positive.
\<close>

theorem calculate_vectors_history:
  assumes init: "init_type = ''one'' \<and> 0 < matrix_dim cfg \<or> init_type = ''all''"
      and len: "length m = context_sz"
      and eps: "norm_vectors cfg \<longrightarrow> 0 < vector_norm_eps cfg"
  shows "\<exists>v0 history.
           init_vector cfg batch_sz init_type = Inr v0 \<and>
           calculate_vectors cfg batch_sz context_sz m attention_mask accumulate init_type
                             reverse_direction = Inr history \<and>
           length history = context_sz + 1 \<and>
           history ! 0 = v0 \<and>
           (accumulate \<and> attention_mask = None \<and> \<not> reverse_direction \<longrightarrow>
              (\<forall>i<context_sz.
                 (\<not> norm_vectors cfg \<longrightarrow> history ! (i + 1) = bmm (m ! i) (history ! i)) \<and>
                 (norm_vectors cfg \<longrightarrow>
                    history ! (i + 1) =
                      map (\<lambda>x. map (\<lambda>a. a / (l2norm x + vector_norm_eps cfg)) x)
                          (bmm (m ! i) (history ! i)) \<and>
                    (\<forall>x. 0 < l2norm x + vector_norm_eps cfg))))"
proof -
  from init_vector_ok[OF init] obtain v0 where v0: "init_vector cfg batch_sz init_type = Inr v0"
    by blast
  define history where
    "history = scan cfg m attention_mask accumulate v0 [v0] (scan_order context_sz reverse_direction)"
  have c: "calculate_vectors cfg batch_sz context_sz m attention_mask accumulate init_type
             reverse_direction = Inr history"
    by (simp add: calculate_vectors_def v0 history_def)
  have l: "length history = context_sz + 1"
    by (simp add: history_def length_scan length_scan_order)
  have z: "history ! 0 = v0"
    by (simp add: history_def scan_nth_old)
  have pos: "0 < l2norm x + vector_norm_eps cfg" if "norm_vectors cfg" for x
    using eps that l2norm_nonneg[of x] by (simp add: add_nonneg_pos)
  have r: "history ! (i + 1) = new_state cfg (m ! i) (history ! i)"
    if "accumulate" "attention_mask = None" "\<not> reverse_direction" "i < context_sz" for i
  proof -
    have h: "history = v0 # run cfg m None v0 (scan_order context_sz False)"
      using that by (simp add: history_def scan_accumulate)
    have "i < length (scan_order context_sz False)" using that by (simp add: length_scan_order)
    from run_nth[OF this, of v0 cfg m None] that(4) show ?thesis
      unfolding h by (simp add: scan_order_nth step_def)
  qed
  show ?thesis
    using v0 c l z r pos by (auto simp: new_state_unfold)
qed

theorem calculate_vectors_history_witness:
  "\<exists>history.
     calculate_vectors \<lparr>num_matrix_heads = 1, matrix_dim = 2, norm_vectors = True,
                         vector_norm_eps = 1\<rparr>
        1 1 [[[[3, 2], [4, 4]]]] None True ''one'' False = Inr history \<and>
     length history = 2 \<and>
     history ! 0 = [[1, 0]] \<and>
     history ! 1 = [[1 / 2, 2 / 3]]"
  using calculate_vectors_history
    [of "''one''" "\<lparr>num_matrix_heads = 1, matrix_dim = 2, norm_vectors = True,
                      vector_norm_eps = 1\<rparr>" "[[[[3, 2], [4, 4]]]]" 1 1 None True False]
  by (simp add: cv_eval)

text \<open>
  Claim C3, as the code has it. Without a mask, the backward scan over the reversed matrix
  sequence consumes the matrices in the order of the forward scan over the original
  sequence, so the two histories are equal as they are returned: no reversal of the
  history is involved.
\<close>

theorem backward_on_reversed_is_forward:
  assumes "length m = context_sz"
  shows "calculate_vectors cfg batch_sz context_sz (rev m) None accumulate init_type True =
         calculate_vectors cfg batch_sz context_sz m None accumulate init_type False"
proof -
  have eq: "\<forall>k<length (scan_order context_sz True).
              rev m ! (scan_order context_sz True ! k) = m ! (scan_order context_sz False ! k)"
    using assms by (auto simp: length_scan_order scan_order_nth rev_nth)
  have l: "length (scan_order context_sz True) = length (scan_order context_sz False)"
    by (simp add: length_scan_order)
  show ?thesis
  proof (cases accumulate)
    case True
    then show ?thesis
      using run_cong[OF l eq, of cfg]
      by (simp add: calculate_vectors_def scan_accumulate split: sum.splits)
  next
    case False
    then show ?thesis
      using map_step_cong[OF l eq, of cfg]
      by (simp add: calculate_vectors_def scan_local split: sum.splits)
  qed
qed

theorem backward_on_reversed_is_forward_witness:
  "calculate_vectors \<lparr>num_matrix_heads = 1, matrix_dim = 2, norm_vectors = False,
                       vector_norm_eps = 0\<rparr>
      1 2 (rev [[[[1, 2], [3, 4]]], [[[0, 1], [1, 0]]]]) None True ''one'' True =
   Inr [[[1, 0]], [[1, 3]], [[3, 1]]] \<and>
   calculate_vectors \<lparr>num_matrix_heads = 1, matrix_dim = 2, norm_vectors = False,
                       vector_norm_eps = 0\<rparr>
      1 2 [[[[1, 2], [3, 4]]], [[[0, 1], [1, 0]]]] None True ''one'' False =
   Inr [[[1, 0]], [[1, 3]], [[3, 1]]]"
  using backward_on_reversed_is_forward
    [of "[[[[1, 2], [3, 4]]], [[[0, 1], [1, 0]]]]" 2
        "\<lparr>num_matrix_heads = 1, matrix_dim = 2, norm_vectors = False, vector_norm_eps = 0\<rparr>"
        1 True "''one''"]
  by (simp add: cv_eval)

text \<open>
  Reversing the history of the backward scan over the reversed sequence puts the initial
  vector last, and the result differs from the forward history.
\<close>

theorem reversed_backward_history_counterexample:
  "map_sum id rev
     (calculate_vectors \<lparr>num_matrix_heads = 1, matrix_dim = 2, norm_vectors = False,
                          vector_norm_eps = 0\<rparr>
        1 2 (rev [[[[1, 2], [3, 4]]], [[[0, 1], [1, 0]]]]) None True ''one'' True) \<noteq>
   calculate_vectors \<lparr>num_matrix_heads = 1, matrix_dim = 2, norm_vectors = False,
                       vector_norm_eps = 0\<rparr>
      1 2 [[[[1, 2], [3, 4]]], [[[0, 1], [1, 0]]]] None True ''one'' False"
  by (simp add: cv_eval)

lemma mask_hold_one:
  assumes "state_ok (b * h) d new_v" "state_ok (b * h) d v" "\<forall>r<b. mi ! r = 1"
  shows "mask_hold h mi new_v v = new_v"
proof (rule nth_equalityI)
  show "length (mask_hold h mi new_v v) = length new_v"
    using assms(1,2) by (simp add: mask_hold_def state_ok_def)
next
  fix j assume "j < length (mask_hold h mi new_v v)"
  then have j: "j < b * h" using assms(2) by (simp add: mask_hold_def state_ok_def)
  then have "j div h < b"
    by (metis less_mult_imp_div_less mult.commute)
  with assms(3) have z: "mi ! (j div h) = 1" by simp
  have len: "length (new_v ! j) = length (v ! j)"
    using assms(1,2) j by (simp add: state_ok_def)
  show "mask_hold h mi new_v v ! j = new_v ! j"
    using j assms(2) len z
    by (auto simp: mask_hold_def state_ok_def intro!: nth_equalityI)
qed

lemma mask_column_all:
  assumes "length am = b" "\<forall>row \<in> set am. row ! i = c"
  shows "\<forall>r<b. mask_column am i ! r = c"
  using assms by (simp add: mask_column_def)

lemma masked_history:
  assumes init: "init_type = ''one'' \<and> 0 < matrix_dim cfg \<or> init_type = ''all''"
      and shape: "well_shaped cfg batch_sz context_sz m"
      and am: "length am = batch_sz"
  shows "\<exists>history.
           calculate_vectors cfg batch_sz context_sz m (Some am) True init_type r = Inr history \<and>
           length history = context_sz + 1 \<and>
           (\<forall>s<context_sz.
              state_ok (batch_sz * num_matrix_heads cfg) (matrix_dim cfg) (history ! s) \<and>
              state_ok (batch_sz * num_matrix_heads cfg) (matrix_dim cfg)
                       (new_state cfg (m ! (scan_order context_sz r ! s)) (history ! s)) \<and>
              history ! (s + 1) =
                mask_hold (num_matrix_heads cfg) (mask_column am (scan_order context_sz r ! s))
                          (new_state cfg (m ! (scan_order context_sz r ! s)) (history ! s))
                          (history ! s))"
proof -
  let ?n = "batch_sz * num_matrix_heads cfg" and ?d = "matrix_dim cfg"
  let ?ord = "scan_order context_sz r"
  from init_vector_ok[OF init] obtain v0 where
    v0: "init_vector cfg batch_sz init_type = Inr v0" and ok0: "state_ok ?n ?d v0"
    by blast
  define history where "history = v0 # run cfg m (Some am) v0 ?ord"
  have c: "calculate_vectors cfg batch_sz context_sz m (Some am) True init_type r = Inr history"
    by (simp add: calc_accumulate[OF v0] history_def)
  have l: "length history = context_sz + 1"
    by (simp add: history_def length_run length_scan_order)
  have ordm: "\<forall>i \<in> set ?ord. mats_ok ?n ?d (m ! i)"
    using shape by (auto simp: well_shaped_def scan_order_def)
  have st: "state_ok ?n ?d (history ! s)" if "s < context_sz" for s
    unfolding history_def using that
    by (intro run_shape[OF ordm ok0]) (simp add: length_scan_order)
  have ns: "state_ok ?n ?d (new_state cfg (m ! (?ord ! s)) (history ! s))" if "s < context_sz" for s
  proof -
    have "?ord ! s \<in> set ?ord" using that by (simp add: length_scan_order)
    with ordm have "mats_ok ?n ?d (m ! (?ord ! s))" by blast
    then show ?thesis using st[OF that] by (rule new_state_shape)
  qed
  have stp: "history ! (s + 1) =
               mask_hold (num_matrix_heads cfg) (mask_column am (?ord ! s))
                         (new_state cfg (m ! (?ord ! s)) (history ! s)) (history ! s)"
    if "s < context_sz" for s
  proof -
    have "s < length ?ord" using that by (simp add: length_scan_order)
    from run_nth[OF this, of v0 cfg m "Some am"] show ?thesis
      by (simp add: history_def step_def)
  qed
  show ?thesis using c l st ns stp by blast
qed

text \<open>
  Claim C2, as the code has it. Every step of a masked scan blends entrywise,
  \<^verbatim>\<open>new_v * mask + v * (1 - mask)\<close>, with the mask entry of the position being consumed
  (position \<open>i\<close> is consumed at step \<open>i\<close> of the forward scan and at step \<open>T - 1 - i\<close> of
  the backward scan). Where the mask is 0 at position \<open>k\<close>, the state after consuming
  \<open>k\<close> equals the state before consuming it, in both directions; where the mask is 1
  the state is replaced by the new one, so the recurrence resumes after a masked position.
\<close>

theorem masked_step_holds_state:
  assumes init: "init_type = ''one'' \<and> 0 < matrix_dim cfg \<or> init_type = ''all''"
      and shape: "well_shaped cfg batch_sz context_sz m"
      and am: "length am = batch_sz"
      and k: "k < context_sz"
      and zero: "\<forall>row \<in> set am. row ! k = 0"
  shows "\<exists>forward backward.
           calculate_vectors cfg batch_sz context_sz m (Some am) True init_type False = Inr forward \<and>
           calculate_vectors cfg batch_sz context_sz m (Some am) True init_type True = Inr backward \<and>
           forward ! (k + 1) = forward ! k \<and>
           backward ! (context_sz - k) = backward ! (context_sz - 1 - k) \<and>
           (\<forall>i<context_sz. \<forall>j<batch_sz * num_matrix_heads cfg. \<forall>e<matrix_dim cfg.
              forward ! (i + 1) ! j ! e =
                new_state cfg (m ! i) (forward ! i) ! j ! e * am ! (j div num_matrix_heads cfg) ! i
                + forward ! i ! j ! e * (1 - am ! (j div num_matrix_heads cfg) ! i)) \<and>
           (\<forall>i<context_sz. \<forall>j<batch_sz * num_matrix_heads cfg. \<forall>e<matrix_dim cfg.
              backward ! (context_sz - i) ! j ! e =
                new_state cfg (m ! i) (backward ! (context_sz - 1 - i)) ! j ! e
                  * am ! (j div num_matrix_heads cfg) ! i
                + backward ! (context_sz - 1 - i) ! j ! e
                  * (1 - am ! (j div num_matrix_heads cfg) ! i)) \<and>
           (\<forall>i<context_sz. (\<forall>row \<in> set am. row ! i = 1) \<longrightarrow>
              forward ! (i + 1) = new_state cfg (m ! i) (forward ! i) \<and>
              backward ! (context_sz - i) = new_state cfg (m ! i) (backward ! (context_sz - 1 - i)))"
proof -
  let ?n = "batch_sz * num_matrix_heads cfg" and ?d = "matrix_dim cfg" and ?h = "num_matrix_heads cfg"
  from masked_history[OF init shape am, of False] obtain f where
    f: "calculate_vectors cfg batch_sz context_sz m (Some am) True init_type False = Inr f"
    and fs: "\<And>s. s < context_sz \<Longrightarrow>
               state_ok ?n ?d (f ! s) \<and> state_ok ?n ?d (new_state cfg (m ! s) (f ! s)) \<and>
               f ! (s + 1) = mask_hold ?h (mask_column am s) (new_state cfg (m ! s) (f ! s)) (f ! s)"
    by (auto simp: scan_order_nth)
  from masked_history[OF init shape am, of True] obtain b where
    b: "calculate_vectors cfg batch_sz context_sz m (Some am) True init_type True = Inr b"
    and bs0: "\<And>s. s < context_sz \<Longrightarrow>
               state_ok ?n ?d (b ! s) \<and>
               state_ok ?n ?d (new_state cfg (m ! (context_sz - 1 - s)) (b ! s)) \<and>
               b ! (s + 1) = mask_hold ?h (mask_column am (context_sz - 1 - s))
                                (new_state cfg (m ! (context_sz - 1 - s)) (b ! s)) (b ! s)"
    by (auto simp: scan_order_nth)
  have bs: "state_ok ?n ?d (b ! (context_sz - 1 - i)) \<and>
            state_ok ?n ?d (new_state cfg (m ! i) (b ! (context_sz - 1 - i))) \<and>
            b ! (context_sz - i) = mask_hold ?h (mask_column am i)
                        (new_state cfg (m ! i) (b ! (context_sz - 1 - i))) (b ! (context_sz - 1 - i))"
    if "i < context_sz" for i
  proof -
    have "context_sz - 1 - i < context_sz" "context_sz - 1 - (context_sz - 1 - i) = i"
         "context_sz - 1 - i + 1 = context_sz - i"
      using that by auto
    with bs0[of "context_sz - 1 - i"] show ?thesis by simp
  qed
  have col: "mask_column am i ! (j div ?h) = am ! (j div ?h) ! i" if "j < ?n" for i j
  proof -
    from that have "j div ?h < batch_sz" by (metis less_mult_imp_div_less mult.commute)
    then show ?thesis using am by (simp add: mask_column_def)
  qed
  have hold_f: "f ! (k + 1) = f ! k"
  proof -
    from fs[OF k] have a: "state_ok ?n ?d (new_state cfg (m ! k) (f ! k))" "state_ok ?n ?d (f ! k)"
      and e: "f ! (k + 1) = mask_hold ?h (mask_column am k) (new_state cfg (m ! k) (f ! k)) (f ! k)"
      by simp_all
    show ?thesis
      unfolding e by (rule mask_hold_zero[OF a mask_column_all[OF am zero]])
  qed
  have hold_b: "b ! (context_sz - k) = b ! (context_sz - 1 - k)"
  proof -
    from bs[OF k] have a: "state_ok ?n ?d (new_state cfg (m ! k) (b ! (context_sz - 1 - k)))"
        "state_ok ?n ?d (b ! (context_sz - 1 - k))"
      and e: "b ! (context_sz - k) = mask_hold ?h (mask_column am k)
                 (new_state cfg (m ! k) (b ! (context_sz - 1 - k))) (b ! (context_sz - 1 - k))"
      by simp_all
    show ?thesis
      unfolding e by (rule mask_hold_zero[OF a mask_column_all[OF am zero]])
  qed
  have rule_f: "f ! (i + 1) ! j ! e =
                  new_state cfg (m ! i) (f ! i) ! j ! e * am ! (j div ?h) ! i
                  + f ! i ! j ! e * (1 - am ! (j div ?h) ! i)"
    if "i < context_sz" "j < ?n" "e < ?d" for i j e
  proof -
    from fs[OF that(1)] have a: "state_ok ?n ?d (new_state cfg (m ! i) (f ! i))" "state_ok ?n ?d (f ! i)"
      and e: "f ! (i + 1) = mask_hold ?h (mask_column am i) (new_state cfg (m ! i) (f ! i)) (f ! i)"
      by simp_all
    show ?thesis
      using mask_hold_nth[OF a that(2,3)] col[OF that(2)] unfolding e by simp
  qed
  have rule_b: "b ! (context_sz - i) ! j ! e =
                  new_state cfg (m ! i) (b ! (context_sz - 1 - i)) ! j ! e * am ! (j div ?h) ! i
                  + b ! (context_sz - 1 - i) ! j ! e * (1 - am ! (j div ?h) ! i)"
    if "i < context_sz" "j < ?n" "e < ?d" for i j e
  proof -
    from bs[OF that(1)] have a: "state_ok ?n ?d (new_state cfg (m ! i) (b ! (context_sz - 1 - i)))"
        "state_ok ?n ?d (b ! (context_sz - 1 - i))"
      and e: "b ! (context_sz - i) = mask_hold ?h (mask_column am i)
                 (new_state cfg (m ! i) (b ! (context_sz - 1 - i))) (b ! (context_sz - 1 - i))"
      by simp_all
    show ?thesis
      using mask_hold_nth[OF a that(2,3)] col[OF that(2)] unfolding e by simp
  qed
  have one: "f ! (i + 1) = new_state cfg (m ! i) (f ! i) \<and>
             b ! (context_sz - i) = new_state cfg (m ! i) (b ! (context_sz - 1 - i))"
    if "i < context_sz" "\<forall>row \<in> set am. row ! i = 1" for i
  proof -
    from fs[OF that(1)] have a: "state_ok ?n ?d (new_state cfg (m ! i) (f ! i))" "state_ok ?n ?d (f ! i)"
      and e: "f ! (i + 1) = mask_hold ?h (mask_column am i) (new_state cfg (m ! i) (f ! i)) (f ! i)"
      by simp_all
    from bs[OF that(1)] have a': "state_ok ?n ?d (new_state cfg (m ! i) (b ! (context_sz - 1 - i)))"
        "state_ok ?n ?d (b ! (context_sz - 1 - i))"
      and e': "b ! (context_sz - i) = mask_hold ?h (mask_column am i)
                 (new_state cfg (m ! i) (b ! (context_sz - 1 - i))) (b ! (context_sz - 1 - i))"
      by simp_all
    show ?thesis
      unfolding e e'
      using mask_hold_one[OF a mask_column_all[OF am that(2)]]
            mask_hold_one[OF a' mask_column_all[OF am that(2)]]
      by simp
  qed
  show ?thesis
  proof (intro exI conjI allI impI)
    show "calculate_vectors cfg batch_sz context_sz m (Some am) True init_type False = Inr f"
      by (rule f)
    show "calculate_vectors cfg batch_sz context_sz m (Some am) True init_type True = Inr b"
      by (rule b)
    show "f ! (k + 1) = f ! k" by (rule hold_f)
    show "b ! (context_sz - k) = b ! (context_sz - 1 - k)" by (rule hold_b)
  next
    fix i j e assume "i < context_sz" "j < ?n" "e < ?d"
    then show "f ! (i + 1) ! j ! e =
                 new_state cfg (m ! i) (f ! i) ! j ! e * am ! (j div ?h) ! i
                 + f ! i ! j ! e * (1 - am ! (j div ?h) ! i)"
      by (rule rule_f)
  next
    fix i j e assume "i < context_sz" "j < ?n" "e < ?d"
    then show "b ! (context_sz - i) ! j ! e =
                 new_state cfg (m ! i) (b ! (context_sz - 1 - i)) ! j ! e * am ! (j div ?h) ! i
                 + b ! (context_sz - 1 - i) ! j ! e * (1 - am ! (j div ?h) ! i)"
      by (rule rule_b)
  next
    fix i assume "i < context_sz" "\<forall>row \<in> set am. row ! i = 1"
    from one[OF this] show "f ! (i + 1) = new_state cfg (m ! i) (f ! i)" by (rule conjunct1)
  next
    fix i assume "i < context_sz" "\<forall>row \<in> set am. row ! i = 1"
    from one[OF this]
    show "b ! (context_sz - i) = new_state cfg (m ! i) (b ! (context_sz - 1 - i))"
      by (rule conjunct2)
  qed
qed

theorem masked_step_holds_state_witness:
  "\<exists>forward backward.
     calculate_vectors \<lparr>num_matrix_heads = 1, matrix_dim = 1, norm_vectors = False,
                         vector_norm_eps = 0\<rparr>
        1 3 [[[[2]]], [[[3]]], [[[5]]]] (Some [[1, 0, 1]]) True ''one'' False = Inr forward \<and>
     calculate_vectors \<lparr>num_matrix_heads = 1, matrix_dim = 1, norm_vectors = False,
                         vector_norm_eps = 0\<rparr>
        1 3 [[[[2]]], [[[3]]], [[[5]]]] (Some [[1, 0, 1]]) True ''one'' True = Inr backward \<and>
     forward ! (1 + 1) = forward ! 1 \<and> backward ! (3 - 1) = backward ! (3 - 1 - 1)"
proof -
  let ?cfg = "\<lparr>num_matrix_heads = 1, matrix_dim = 1, norm_vectors = False,
                vector_norm_eps = 0\<rparr>"
  let ?m = "[[[[2]]], [[[3]]], [[[5]]]] :: mat list list"
  let ?am = "[[1, 0, 1]] :: real list list"
  have h1: "''one'' = ''one'' \<and> 0 < matrix_dim ?cfg \<or> ''one'' = ''all''" by simp
  have h2: "well_shaped ?cfg 1 3 ?m" by (simp add: well_shaped_def mats_ok_def)
  have h3: "length ?am = 1" by simp
  have h4: "(1::nat) < 3" by simp
  have h5: "\<forall>row \<in> set ?am. row ! 1 = 0" by simp
  from masked_step_holds_state[OF h1 h2 h3 h4 h5] obtain f b where
    ff: "calculate_vectors ?cfg 1 3 ?m (Some ?am) True ''one'' False = Inr f" and
    bb: "calculate_vectors ?cfg 1 3 ?m (Some ?am) True ''one'' True = Inr b" and
    hf: "f ! (1 + 1) = f ! 1" and hb: "b ! (3 - 1) = b ! (3 - 1 - 1)"
    by (elim exE conjE) (rule that; assumption)
  from ff bb hf hb show ?thesis by (intro exI[of _ f] exI[of _ b] conjI)
qed

text \<open>
  With the mask \<open>[1, 0, 1]\<close> the state is held at position 1 only: the state after
  position 2 (entry 3 of the history) differs from the state after position 0 (entry 1).
\<close>

theorem frozen_after_mask_counterexample:
  "calculate_vectors \<lparr>num_matrix_heads = 1, matrix_dim = 1, norm_vectors = False,
                       vector_norm_eps = 0\<rparr>
      1 3 [[[[2]]], [[[3]]], [[[5]]]] (Some [[1, 0, 1]]) True ''one'' False
     = Inr [[[1]], [[2]], [[2]], [[10]]] \<and>
   projr (calculate_vectors \<lparr>num_matrix_heads = 1, matrix_dim = 1, norm_vectors = False,
                              vector_norm_eps = 0\<rparr>
      1 3 [[[[2]]], [[[3]]], [[[5]]]] (Some [[1, 0, 1]]) True ''one'' False) ! 3
   \<noteq> projr (calculate_vectors \<lparr>num_matrix_heads = 1, matrix_dim = 1, norm_vectors = False,
                              vector_norm_eps = 0\<rparr>
      1 3 [[[[2]]], [[[3]]], [[[5]]]] (Some [[1, 0, 1]]) True ''one'' False) ! 1"
proof -
  have e: "calculate_vectors \<lparr>num_matrix_heads = 1, matrix_dim = 1, norm_vectors = False,
                       vector_norm_eps = 0\<rparr>
      1 3 [[[[2]]], [[[3]]], [[[5]]]] (Some [[1, 0, 1]]) True ''one'' False
     = Inr [[[1]], [[2]], [[2]], [[10]]]"
    by (simp add: cv_eval)
  show ?thesis unfolding e by simp
qed

section \<open>Properties of the determinant normalization\<close>

lemma det_denominator_ge: "matrix_norm_eps cfg \<le> det_denominator cfg a"
  by (simp add: det_denominator_def)

text \<open>
  Claim C8. For \<^verbatim>\<open>matrix_norm_eps > 0\<close> (and \<^verbatim>\<open>matrix_dim > 0\<close>) the \<^verbatim>\<open>"det"\<close>
  normalization returns, for every input tensor, each matrix divided by
  \<open>|det|\<^sup>1\<^sup>/\<^sup>d\<^sup>i\<^sup>m + eps\<close>. That denominator is strictly positive for every matrix, singular
  ones included, so nothing is divided by zero, and every entry of the output is bounded
  by the absolute value of the input entry divided by the epsilon.
\<close>

theorem det_norm_stable:
  assumes "0 < matrix_norm_eps cfg" and "0 < encoder_matrix_dim cfg"
  shows "det_norm cfg m =
           Inr (map (map (map (\<lambda>a. map (map (\<lambda>x. x / det_denominator cfg a)) a))) m) \<and>
         (\<forall>a. 0 < det_denominator cfg a \<and>
              det_denominator cfg a =
                \<bar>det a\<bar> powr (1 / real (encoder_matrix_dim cfg)) + matrix_norm_eps cfg \<and>
              (\<forall>x. \<bar>x / det_denominator cfg a\<bar> \<le> \<bar>x\<bar> / matrix_norm_eps cfg))"
proof -
  have pos: "0 < det_denominator cfg a" for a
    using assms(1) det_denominator_ge[of cfg a] by linarith
  have bound: "\<bar>x / det_denominator cfg a\<bar> \<le> \<bar>x\<bar> / matrix_norm_eps cfg" for a x
  proof -
    have "\<bar>x / det_denominator cfg a\<bar> = \<bar>x\<bar> / det_denominator cfg a"
      using pos[of a] by simp
    also have "\<dots> \<le> \<bar>x\<bar> / matrix_norm_eps cfg"
      using assms(1) det_denominator_ge[of cfg a] by (intro divide_left_mono) auto
    finally show ?thesis .
  qed
  show ?thesis
    using assms(2) pos bound by (simp add: det_norm_def det_denominator_def)
qed

theorem det_norm_stable_witness:
  "det_norm \<lparr>encoder_matrix_dim = 2, matrix_norm_eps = 1 / 1000000\<rparr>
            [[[ [[0, 0], [0, 0]], [[1 / 1000, 0], [0, 0]] ]]]
     = Inr [[[ [[0, 0], [0, 0]], [[1000, 0], [0, 0]] ]]]"
  using det_norm_stable[of "\<lparr>encoder_matrix_dim = 2, matrix_norm_eps = 1 / 1000000\<rparr>"
                           "[[[ [[0, 0], [0, 0]], [[1 / 1000, 0], [0, 0]] ]]]"]
  by (simp add: det_denominator_def minor_cols_def upt_conv_Cons)

section \<open>Properties of the orthogonalization\<close>

lemma sum_list_upt: "sum_list (map f [0..<n]) = (\<Sum>k<n. f k)"
  by (simp add: interv_sum_list_conv_sum_set_nat atLeast0LessThan)

lemma matmul_nth:
  "i < n \<Longrightarrow> j < n \<Longrightarrow> matmul n a b ! i ! j = (\<Sum>k<n. a ! i ! k * b ! k ! j)"
  by (simp add: matmul_def sum_list_upt)

lemma mat_transpose_nth: "i < n \<Longrightarrow> j < n \<Longrightarrow> mat_transpose n a ! i ! j = a ! j ! i"
  by (simp add: mat_transpose_def)

lemma eye_nth: "i < n \<Longrightarrow> j < n \<Longrightarrow> eye n ! i ! j = (if i = j then 1 else 0)"
  by (simp add: eye_def)

lemma diag_embed_nth:
  "i < n \<Longrightarrow> j < n \<Longrightarrow> diag_embed n v ! i ! j = (if i = j then v ! i else 0)"
  by (simp add: diag_embed_def)

lemma diagonal_nth: "i < n \<Longrightarrow> diagonal n a ! i = a ! i ! i"
  by (simp add: diagonal_def)

lemma square_matmul: "square n (matmul n a b)"
  by (auto simp: square_def matmul_def)

lemma square_eqI:
  assumes "square n a" "square n b" "\<And>i j. i < n \<Longrightarrow> j < n \<Longrightarrow> a ! i ! j = b ! i ! j"
  shows "a = b"
proof (rule nth_equalityI)
  show "length a = length b" using assms(1,2) by (simp add: square_def)
next
  fix i assume i: "i < length a"
  then have "i < n" "length (a ! i) = n" "length (b ! i) = n"
    using assms(1,2) by (auto simp: square_def)
  then show "a ! i = b ! i" using assms(3) by (intro nth_equalityI) auto
qed

lemma orthogonal_rows:
  assumes "orthogonal n q" "i < n" "k < n"
  shows "(\<Sum>j<n. q ! i ! j * q ! k ! j) = (if i = k then 1 else 0)"
proof -
  from assms(1) have "matmul n q (mat_transpose n q) ! i ! k = eye n ! i ! k"
    by (simp add: orthogonal_def)
  then show ?thesis using assms(2,3) by (simp add: matmul_nth mat_transpose_nth eye_nth)
qed

lemma orthogonal_cols:
  assumes "orthogonal n q" "i < n" "k < n"
  shows "(\<Sum>l<n. q ! l ! i * q ! l ! k) = (if i = k then 1 else 0)"
proof -
  from assms(1) have "matmul n (mat_transpose n q) q ! i ! k = eye n ! i ! k"
    by (simp add: orthogonal_def)
  then show ?thesis using assms(2,3) by (simp add: matmul_nth mat_transpose_nth eye_nth)
qed

lemma orthogonalI:
  assumes "square n q"
      and "\<And>i k. i < n \<Longrightarrow> k < n \<Longrightarrow> (\<Sum>j<n. q ! i ! j * q ! k ! j) = (if i = k then 1 else 0)"
      and "\<And>i k. i < n \<Longrightarrow> k < n \<Longrightarrow> (\<Sum>l<n. q ! l ! i * q ! l ! k) = (if i = k then 1 else 0)"
  shows "orthogonal n q"
proof -
  have sq_eye: "square n (eye n)" by (auto simp: square_def eye_def)
  have a: "matmul n q (mat_transpose n q) = eye n"
    by (rule square_eqI[OF square_matmul sq_eye])
       (simp add: matmul_nth mat_transpose_nth eye_nth assms(2))
  have b: "matmul n (mat_transpose n q) q = eye n"
    by (rule square_eqI[OF square_matmul sq_eye])
       (simp add: matmul_nth mat_transpose_nth eye_nth assms(3))
  show ?thesis using assms(1) a b by (simp add: orthogonal_def)
qed

text \<open>The intermediate tensors of \<^verbatim>\<open>make_orthogonal\<close>, entry by entry.\<close>

lemma sign_matrix_nth:
  "i < n \<Longrightarrow> j < n \<Longrightarrow>
   diag_embed n (map sgn (diagonal n r)) ! i ! j = (if i = j then sgn (r ! i ! i) else 0)"
  by (simp add: diag_embed_nth diagonal_def)

lemma q_times_s_nth:
  assumes "i < n" "j < n"
  shows "matmul n q (diag_embed n (map sgn (diagonal n r))) ! i ! j = q ! i ! j * sgn (r ! j ! j)"
proof -
  have "matmul n q (diag_embed n (map sgn (diagonal n r))) ! i ! j =
          (\<Sum>k<n. q ! i ! k * (if k = j then sgn (r ! k ! k) else 0))"
    using assms by (simp add: matmul_nth sign_matrix_nth)
  also have "\<dots> = (\<Sum>k<n. if k = j then q ! i ! k * sgn (r ! k ! k) else 0)"
    by (intro sum.cong) auto
  also have "\<dots> = q ! i ! j * sgn (r ! j ! j)"
    using assms(2) by (simp add: sum.delta)
  finally show ?thesis .
qed

lemma s_times_r_nth:
  assumes "i < n" "j < n"
  shows "matmul n (diag_embed n (map sgn (diagonal n r))) r ! i ! j = sgn (r ! i ! i) * r ! i ! j"
proof -
  have "matmul n (diag_embed n (map sgn (diagonal n r))) r ! i ! j =
          (\<Sum>k<n. (if i = k then sgn (r ! i ! i) else 0) * r ! k ! j)"
    using assms by (simp add: matmul_nth sign_matrix_nth)
  also have "\<dots> = (\<Sum>k<n. if k = i then sgn (r ! i ! i) * r ! k ! j else 0)"
    by (intro sum.cong) auto
  also have "\<dots> = sgn (r ! i ! i) * r ! i ! j"
    using assms(1) by (simp add: sum.delta)
  finally show ?thesis .
qed

lemma new_diagonal_nth:
  assumes "j < n"
  shows "diagonal n (matmul n (diag_embed n (map sgn (diagonal n r))) r) ! j = \<bar>r ! j ! j\<bar>"
  using assms by (simp add: diagonal_nth s_times_r_nth abs_sgn mult.commute)

lemma make_orthogonal_nth:
  assumes "i < n" "j < n"
  shows "make_orthogonal n q r ! i ! j =
           (if r ! j ! j = 0 then None else Some (q ! i ! j * sgn (r ! j ! j)))"
  using assms
  by (simp add: make_orthogonal_def Let_def new_diagonal_nth q_times_s_nth unit_sign_def)

lemma signed_q_nth: "i < n \<Longrightarrow> j < n \<Longrightarrow> signed_q n q r ! i ! j = q ! i ! j * sgn (r ! j ! j)"
  by (simp add: signed_q_def)

lemma square_signed_q: "square n (signed_q n q r)"
  by (auto simp: square_def signed_q_def)

lemma make_orthogonal_nonsingular:
  assumes "\<forall>j<n. r ! j ! j \<noteq> 0"
  shows "make_orthogonal n q r = map (map Some) (signed_q n q r)"
proof (rule nth_equalityI)
  show "length (make_orthogonal n q r) = length (map (map Some) (signed_q n q r))"
    by (simp add: make_orthogonal_def signed_q_def Let_def)
next
  fix i assume "i < length (make_orthogonal n q r)"
  then have i: "i < n" by (simp add: make_orthogonal_def Let_def)
  have l1: "length (make_orthogonal n q r ! i) = n"
    using i by (simp add: make_orthogonal_def Let_def)
  have l2: "length (map (map Some) (signed_q n q r) ! i) = n"
    using i by (simp add: signed_q_def)
  show "make_orthogonal n q r ! i = map (map Some) (signed_q n q r) ! i"
  proof (rule nth_equalityI)
    show "length (make_orthogonal n q r ! i) = length (map (map Some) (signed_q n q r) ! i)"
      using l1 l2 by simp
  next
    fix j assume "j < length (make_orthogonal n q r ! i)"
    then have j: "j < n" using l1 by simp
    have "map (map Some) (signed_q n q r) ! i ! j = Some (signed_q n q r ! i ! j)"
      using i j square_signed_q[of n q r] by (simp add: square_def)
    then show "make_orthogonal n q r ! i ! j = map (map Some) (signed_q n q r) ! i ! j"
      using i j assms by (simp add: make_orthogonal_nth signed_q_nth)
  qed
qed

lemma sgn_sq: "x \<noteq> 0 \<Longrightarrow> sgn x * sgn x = (1::real)"
  by (simp add: sgn_real_def)

lemma orthogonal_signed_q:
  assumes "orthogonal n q" "\<forall>j<n. r ! j ! j \<noteq> 0"
  shows "orthogonal n (signed_q n q r)"
proof (rule orthogonalI[OF square_signed_q])
  fix i k assume ik: "i < n" "k < n"
  have "(\<Sum>j<n. signed_q n q r ! i ! j * signed_q n q r ! k ! j) =
        (\<Sum>j<n. q ! i ! j * q ! k ! j)"
  proof (rule sum.cong[OF refl])
    fix j assume "j \<in> {..<n}"
    then have j: "j < n" by simp
    have "signed_q n q r ! i ! j * signed_q n q r ! k ! j =
            q ! i ! j * q ! k ! j * (sgn (r ! j ! j) * sgn (r ! j ! j))"
      using ik j by (simp add: signed_q_nth)
    then show "signed_q n q r ! i ! j * signed_q n q r ! k ! j = q ! i ! j * q ! k ! j"
      using assms(2) j by (simp add: sgn_sq)
  qed
  then show "(\<Sum>j<n. signed_q n q r ! i ! j * signed_q n q r ! k ! j) = (if i = k then 1 else 0)"
    using orthogonal_rows[OF assms(1) ik] by simp
next
  fix i k assume ik: "i < n" "k < n"
  have "(\<Sum>l<n. signed_q n q r ! l ! i * signed_q n q r ! l ! k) =
        (\<Sum>l<n. q ! l ! i * q ! l ! k * (sgn (r ! i ! i) * sgn (r ! k ! k)))"
    using ik by (intro sum.cong[OF refl]) (simp add: signed_q_nth)
  also have "\<dots> = (\<Sum>l<n. q ! l ! i * q ! l ! k) * (sgn (r ! i ! i) * sgn (r ! k ! k))"
    by (simp add: sum_distrib_right)
  also have "\<dots> = (if i = k then 1 else 0)"
    using orthogonal_cols[OF assms(1) ik] assms(2) ik by (simp add: sgn_sq)
  finally show "(\<Sum>l<n. signed_q n q r ! l ! i * signed_q n q r ! l ! k) = (if i = k then 1 else 0)" .
qed

lemma isometry_inner:
  fixes g :: "nat \<Rightarrow> nat \<Rightarrow> real"
  assumes on: "\<And>l m. l < n \<Longrightarrow> m < n \<Longrightarrow> (\<Sum>k<n. g k l * g k m) = (if l = m then 1 else 0)"
  shows "(\<Sum>k<n. (\<Sum>l<n. g k l * a l) * (\<Sum>m<n. g k m * b m)) = (\<Sum>l<n. a l * b l)"
proof -
  have "(\<Sum>k<n. (\<Sum>l<n. g k l * a l) * (\<Sum>m<n. g k m * b m)) =
        (\<Sum>k<n. \<Sum>l<n. \<Sum>m<n. (g k l * a l) * (g k m * b m))"
    by (simp add: sum_product)
  also have "\<dots> = (\<Sum>l<n. \<Sum>k<n. \<Sum>m<n. (g k l * a l) * (g k m * b m))"
    by (rule sum.swap)
  also have "\<dots> = (\<Sum>l<n. \<Sum>m<n. \<Sum>k<n. (g k l * a l) * (g k m * b m))"
    by (intro sum.cong[OF refl] sum.swap)
  also have "\<dots> = (\<Sum>l<n. \<Sum>m<n. a l * b m * (\<Sum>k<n. g k l * g k m))"
    by (intro sum.cong[OF refl]) (simp add: sum_distrib_left mult_ac)
  also have "\<dots> = (\<Sum>l<n. \<Sum>m<n. if m = l then a l * b m else 0)"
    by (intro sum.cong[OF refl]) (auto simp: on)
  also have "\<dots> = (\<Sum>l<n. a l * b l)"
    by (intro sum.cong[OF refl]) (simp add: sum.delta)
  finally show ?thesis .
qed

lemma triangular_orthonormal_diagonal:
  fixes f :: "nat \<Rightarrow> nat \<Rightarrow> real"
  assumes ut: "\<And>i j. i < n \<Longrightarrow> j < i \<Longrightarrow> f i j = 0"
      and on: "\<And>i j. i < n \<Longrightarrow> j < n \<Longrightarrow> (\<Sum>l<n. f l i * f l j) = (if i = j then 1 else 0)"
  shows "i < n \<Longrightarrow> (\<forall>j<n. j \<noteq> i \<longrightarrow> f i j = 0) \<and> f i i * f i i = 1"
proof (induction i rule: less_induct)
  case (less i)
  have col: "f l i = 0" if "l < n" "l \<noteq> i" for l
  proof (cases "l < i")
    case True
    with less.IH[OF True that(1)] less.prems that(2) show ?thesis by auto
  next
    case False
    with that(2) have "i < l" by simp
    from ut[OF that(1) this] show ?thesis .
  qed
  have dot: "(\<Sum>l<n. f l i * f l j) = f i i * f i j" for j
  proof -
    have "(\<Sum>l<n. f l i * f l j) = (\<Sum>l<n. if l = i then f i i * f i j else 0)"
      by (intro sum.cong[OF refl]) (auto simp: col)
    also have "\<dots> = f i i * f i j" using less.prems by (simp add: sum.delta)
    finally show ?thesis .
  qed
  have d: "f i i * f i i = 1"
    using on[OF less.prems less.prems] dot[of i] by simp
  then have nz: "f i i \<noteq> 0" by auto
  have "f i j = 0" if "j < n" "j \<noteq> i" for j
  proof -
    from on[OF less.prems that(1)] that(2) dot[of j] have "f i i * f i j = 0" by simp
    with nz show ?thesis by simp
  qed
  with d show ?case by blast
qed

lemma is_qr_entry:
  assumes "is_qr n z q r" "i < n" "j < n"
  shows "z ! i ! j = (\<Sum>l<n. q ! i ! l * r ! l ! j)"
proof -
  from assms(1) have "z = matmul n q r" by (simp add: is_qr_def)
  then show ?thesis using assms(2,3) by (simp add: matmul_nth)
qed

lemma qr_of_orthogonal:
  assumes qr: "is_qr n z q r" and oz: "orthogonal n z" and i: "i < n"
  shows "(\<forall>j<n. j \<noteq> i \<longrightarrow> r ! i ! j = 0) \<and> r ! i ! i * r ! i ! i = 1"
proof (rule triangular_orthonormal_diagonal[where f = "\<lambda>i j. r ! i ! j" and n = n, OF _ _ i])
  fix a b assume "a < n" "b < a"
  then show "r ! a ! b = 0" using qr by (simp add: is_qr_def upper_triangular_def)
next
  fix a b assume ab: "a < n" "b < n"
  from qr have oq: "orthogonal n q" by (simp add: is_qr_def)
  have "(\<Sum>l<n. r ! l ! a * r ! l ! b) =
        (\<Sum>k<n. (\<Sum>l<n. q ! k ! l * r ! l ! a) * (\<Sum>m<n. q ! k ! m * r ! m ! b))"
    by (rule isometry_inner[where g = "\<lambda>k l. q ! k ! l", symmetric])
       (rule orthogonal_cols[OF oq])
  also have "\<dots> = (\<Sum>k<n. z ! k ! a * z ! k ! b)"
    using ab by (intro sum.cong[OF refl]) (simp add: is_qr_entry[OF qr])
  also have "\<dots> = (if a = b then 1 else 0)"
    by (rule orthogonal_cols[OF oz ab])
  finally show "(\<Sum>l<n. r ! l ! a * r ! l ! b) = (if a = b then 1 else 0)" .
qed

lemma sgn_of_unit: "x * x = (1::real) \<Longrightarrow> sgn x = x"
proof -
  assume "x * x = 1"
  then have "x\<^sup>2 = 1" by (simp add: power2_eq_square)
  then have "x = 1 \<or> x = -1" by (simp add: power2_eq_1_iff)
  then show ?thesis by auto
qed

lemma signed_q_of_orthogonal:
  assumes qr: "is_qr n z q r" and oz: "orthogonal n z"
  shows "signed_q n q r = z"
proof (rule square_eqI[OF square_signed_q])
  show "square n z" using oz by (simp add: orthogonal_def)
next
  fix i j assume ij: "i < n" "j < n"
  have "z ! i ! j = (\<Sum>l<n. q ! i ! l * r ! l ! j)" by (rule is_qr_entry[OF qr ij])
  also have "\<dots> = (\<Sum>l<n. if l = j then q ! i ! j * r ! j ! j else 0)"
  proof (rule sum.cong[OF refl])
    fix l assume "l \<in> {..<n}"
    then have l: "l < n" by simp
    show "q ! i ! l * r ! l ! j = (if l = j then q ! i ! j * r ! j ! j else 0)"
      using qr_of_orthogonal[OF qr oz l] ij(2) by auto
  qed
  also have "\<dots> = q ! i ! j * r ! j ! j" using ij(2) by (simp add: sum.delta)
  finally have "z ! i ! j = q ! i ! j * r ! j ! j" .
  moreover have "sgn (r ! j ! j) = r ! j ! j"
    using qr_of_orthogonal[OF qr oz ij(2)] by (intro sgn_of_unit) simp
  ultimately show "signed_q n q r ! i ! j = z ! i ! j"
    using ij by (simp add: signed_q_nth)
qed

lemma nonsingular_of_orthogonal:
  assumes "is_qr n z q r" "orthogonal n z"
  shows "\<forall>j<n. r ! j ! j \<noteq> 0"
proof (intro allI impI)
  fix j assume "j < n"
  from qr_of_orthogonal[OF assms this] have "r ! j ! j * r ! j ! j = 1" by simp
  then show "r ! j ! j \<noteq> 0" by auto
qed

lemma sum_reassociate:
  fixes f :: "nat \<Rightarrow> real"
  shows "(\<Sum>j<n. (\<Sum>k<n. f k * g k j) * h j) = (\<Sum>k<n. f k * (\<Sum>j<n. g k j * h j))"
proof -
  have "(\<Sum>j<n. (\<Sum>k<n. f k * g k j) * h j) = (\<Sum>j<n. \<Sum>k<n. f k * (g k j * h j))"
    by (simp add: sum_distrib_right mult.assoc)
  also have "\<dots> = (\<Sum>k<n. \<Sum>j<n. f k * (g k j * h j))" by (rule sum.swap)
  also have "\<dots> = (\<Sum>k<n. f k * (\<Sum>j<n. g k j * h j))" by (simp add: sum_distrib_left)
  finally show ?thesis .
qed

lemma sum_delta_left:
  fixes a :: "nat \<Rightarrow> real"
  assumes "i < n"
  shows "(\<Sum>l<n. (if i = l then 1 else 0) * a l) = a i"
proof -
  have "(\<Sum>l<n. (if i = l then 1 else 0) * a l) = (\<Sum>l<n. if l = i then a l else 0)"
    by (intro sum.cong[OF refl]) auto
  then show ?thesis using assms by (simp add: sum.delta)
qed

text \<open>
  Two factorizations of one nonsingular matrix differ by a diagonal matrix of signs
  \<open>w = q2\<^sup>T q1\<close>, which the sign correction undoes.
\<close>

lemma qr_unique:
  assumes qr1: "is_qr n z q1 r1" and qr2: "is_qr n z q2 r2" and ns: "\<forall>j<n. r1 ! j ! j \<noteq> 0"
  shows "signed_q n q1 r1 = signed_q n q2 r2 \<and> (\<forall>j<n. r2 ! j ! j \<noteq> 0)"
proof -
  from qr1 have o1: "orthogonal n q1" by (simp add: is_qr_def)
  from qr2 have o2: "orthogonal n q2" by (simp add: is_qr_def)
  from qr1 have ut1: "\<And>i j. i < n \<Longrightarrow> j < i \<Longrightarrow> r1 ! i ! j = 0"
    by (simp add: is_qr_def upper_triangular_def)
  from qr2 have ut2: "\<And>i j. i < n \<Longrightarrow> j < i \<Longrightarrow> r2 ! i ! j = 0"
    by (simp add: is_qr_def upper_triangular_def)
  define w where "w = (\<lambda>i j. \<Sum>k<n. q2 ! k ! i * q1 ! k ! j)"
  have wr: "(\<Sum>j<n. w i j * r1 ! j ! m) = r2 ! i ! m" if "i < n" "m < n" for i m
  proof -
    have "(\<Sum>j<n. w i j * r1 ! j ! m) = (\<Sum>k<n. q2 ! k ! i * (\<Sum>j<n. q1 ! k ! j * r1 ! j ! m))"
      unfolding w_def by (rule sum_reassociate)
    also have "\<dots> = (\<Sum>k<n. q2 ! k ! i * z ! k ! m)"
      using that by (intro sum.cong[OF refl]) (simp add: is_qr_entry[OF qr1])
    also have "\<dots> = (\<Sum>k<n. q2 ! k ! i * (\<Sum>l<n. q2 ! k ! l * r2 ! l ! m))"
      using that by (intro sum.cong[OF refl]) (simp add: is_qr_entry[OF qr2])
    also have "\<dots> = (\<Sum>k<n. \<Sum>l<n. q2 ! k ! i * q2 ! k ! l * r2 ! l ! m)"
      by (simp add: sum_distrib_left mult.assoc)
    also have "\<dots> = (\<Sum>l<n. \<Sum>k<n. q2 ! k ! i * q2 ! k ! l * r2 ! l ! m)"
      by (rule sum.swap)
    also have "\<dots> = (\<Sum>l<n. (\<Sum>k<n. q2 ! k ! i * q2 ! k ! l) * r2 ! l ! m)"
      by (simp add: sum_distrib_right)
    also have "\<dots> = (\<Sum>l<n. (if i = l then 1 else 0) * r2 ! l ! m)"
      using that by (intro sum.cong[OF refl]) (simp add: orthogonal_cols[OF o2])
    also have "\<dots> = r2 ! i ! m" by (rule sum_delta_left[OF that(1)])
    finally show ?thesis .
  qed
  have won: "(\<Sum>l<n. w l i * w l j) = (if i = j then 1 else 0)" if "i < n" "j < n" for i j
  proof -
    have "(\<Sum>l<n. w l i * w l j) =
          (\<Sum>l<n. (\<Sum>k<n. q2 ! k ! l * q1 ! k ! i) * (\<Sum>k<n. q2 ! k ! l * q1 ! k ! j))"
      by (simp add: w_def)
    also have "\<dots> = (\<Sum>k<n. q1 ! k ! i * q1 ! k ! j)"
      by (rule isometry_inner[where g = "\<lambda>l k. q2 ! k ! l"]) (rule orthogonal_rows[OF o2])
    also have "\<dots> = (if i = j then 1 else 0)" by (rule orthogonal_cols[OF o1 that])
    finally show ?thesis .
  qed
  have wut: "j < n \<Longrightarrow> (\<forall>i<n. j < i \<longrightarrow> w i j = 0)" for j
  proof (induction j rule: less_induct)
    case (less j)
    show ?case
    proof (intro allI impI)
      fix i assume i: "i < n" "j < i"
      have "r2 ! i ! j = (\<Sum>k<n. w i k * r1 ! k ! j)" using wr[OF i(1) less.prems] by simp
      also have "\<dots> = (\<Sum>k<n. if k = j then w i j * r1 ! j ! j else 0)"
      proof (rule sum.cong[OF refl])
        fix k assume "k \<in> {..<n}"
        then have k: "k < n" by simp
        consider "k < j" | "k = j" | "j < k" by linarith
        then show "w i k * r1 ! k ! j = (if k = j then w i j * r1 ! j ! j else 0)"
        proof cases
          case 1
          with less.IH[OF 1 k] i have "w i k = 0" by simp
          with 1 show ?thesis by simp
        next
          case 2 then show ?thesis by simp
        next
          case 3
          with ut1[OF k 3] show ?thesis by simp
        qed
      qed
      also have "\<dots> = w i j * r1 ! j ! j" using less.prems by (simp add: sum.delta)
      finally have "w i j * r1 ! j ! j = 0" using ut2[OF i] by simp
      with ns less.prems show "w i j = 0" by simp
    qed
  qed
  have wd: "(\<forall>j<n. j \<noteq> i \<longrightarrow> w i j = 0) \<and> w i i * w i i = 1" if "i < n" for i
  proof (rule triangular_orthonormal_diagonal[where f = w and n = n, OF _ _ that])
    fix a b assume "a < n" "b < a"
    then show "w a b = 0" using wut[of b] by simp
  next
    fix a b assume "a < n" "b < n"
    then show "(\<Sum>l<n. w l a * w l b) = (if a = b then 1 else 0)" by (rule won)
  qed
  have rd: "r2 ! j ! j = w j j * r1 ! j ! j" if "j < n" for j
  proof -
    have "r2 ! j ! j = (\<Sum>k<n. w j k * r1 ! k ! j)" using wr[OF that that] by simp
    also have "\<dots> = (\<Sum>k<n. if k = j then w j j * r1 ! j ! j else 0)"
      using wd[OF that] by (intro sum.cong[OF refl]) auto
    also have "\<dots> = w j j * r1 ! j ! j" using that by (simp add: sum.delta)
    finally show ?thesis .
  qed
  have qw: "q1 ! i ! j = q2 ! i ! j * w j j" if "i < n" "j < n" for i j
  proof -
    have "(\<Sum>l<n. q2 ! i ! l * w l j) = (\<Sum>k<n. (\<Sum>l<n. q2 ! i ! l * q2 ! k ! l) * q1 ! k ! j)"
    proof -
      have "(\<Sum>l<n. q2 ! i ! l * w l j) = (\<Sum>l<n. \<Sum>k<n. q2 ! i ! l * q2 ! k ! l * q1 ! k ! j)"
        by (simp add: w_def sum_distrib_left mult.assoc)
      also have "\<dots> = (\<Sum>k<n. \<Sum>l<n. q2 ! i ! l * q2 ! k ! l * q1 ! k ! j)" by (rule sum.swap)
      also have "\<dots> = (\<Sum>k<n. (\<Sum>l<n. q2 ! i ! l * q2 ! k ! l) * q1 ! k ! j)"
        by (simp add: sum_distrib_right)
      finally show ?thesis .
    qed
    also have "\<dots> = (\<Sum>k<n. (if i = k then 1 else 0) * q1 ! k ! j)"
      using that by (intro sum.cong[OF refl]) (simp add: orthogonal_rows[OF o2])
    also have "\<dots> = q1 ! i ! j" by (rule sum_delta_left[OF that(1)])
    finally have a: "q1 ! i ! j = (\<Sum>l<n. q2 ! i ! l * w l j)" by simp
    have "(\<Sum>l<n. q2 ! i ! l * w l j) = (\<Sum>l<n. if l = j then q2 ! i ! j * w j j else 0)"
    proof (rule sum.cong[OF refl])
      fix l assume "l \<in> {..<n}"
      then have "l < n" by simp
      from wd[OF this] that(2) show "q2 ! i ! l * w l j = (if l = j then q2 ! i ! j * w j j else 0)"
        by auto
    qed
    also have "\<dots> = q2 ! i ! j * w j j" using that(2) by (simp add: sum.delta)
    finally show ?thesis using a by simp
  qed
  have ns2: "\<forall>j<n. r2 ! j ! j \<noteq> 0"
  proof (intro allI impI)
    fix j assume j: "j < n"
    from wd[OF j] have "w j j \<noteq> 0" by auto
    with ns j rd[OF j] show "r2 ! j ! j \<noteq> 0" by simp
  qed
  have eq: "signed_q n q1 r1 = signed_q n q2 r2"
  proof (rule square_eqI[OF square_signed_q square_signed_q])
    fix i j assume ij: "i < n" "j < n"
    from wd[OF ij(2)] have s: "sgn (w j j) = w j j" by (intro sgn_of_unit) simp
    have "sgn (r2 ! j ! j) = w j j * sgn (r1 ! j ! j)"
      by (simp add: rd[OF ij(2)] sgn_mult s)
    then show "signed_q n q1 r1 ! i ! j = signed_q n q2 r2 ! i ! j"
      using ij by (simp add: signed_q_nth qw[OF ij])
  qed
  show ?thesis using eq ns2 by simp
qed

text \<open>
  Claim C4, as the code has it. Let \<open>(q, r)\<close> be the factorization that the library
  returns for \<open>z\<close>. If no diagonal entry of \<open>r\<close> is zero, that is, if \<open>z\<close> is nonsingular,
  then \<^verbatim>\<open>make_orthogonal\<close> returns a matrix of numbers \<open>q'\<close> with \<open>q' @ q'\<^sup>T\<close> the
  identity, the corrected \<open>r\<close> has a positive diagonal, and the result is the same for
  every factorization of \<open>z\<close>. Applied to an orthogonal \<open>z\<close>, it returns \<open>z\<close>.
\<close>

theorem make_orthogonal_correct:
  assumes "is_qr n z q r"
  shows "((\<forall>j<n. r ! j ! j \<noteq> 0) \<longrightarrow>
            (\<exists>q'. make_orthogonal n q r = map (map Some) q' \<and>
                  orthogonal n q' \<and>
                  matmul n q' (mat_transpose n q') = eye n \<and>
                  (\<forall>j<n. 0 < diagonal n (matmul n (diag_embed n (map sgn (diagonal n r))) r) ! j)) \<and>
            (\<forall>q2 r2. is_qr n z q2 r2 \<longrightarrow> make_orthogonal n q2 r2 = make_orthogonal n q r)) \<and>
         (orthogonal n z \<longrightarrow> make_orthogonal n q r = map (map Some) z)"
proof (intro conjI impI allI)
  assume ns: "\<forall>j<n. r ! j ! j \<noteq> 0"
  from assms have oq: "orthogonal n q" by (simp add: is_qr_def)
  have o: "orthogonal n (signed_q n q r)" by (rule orthogonal_signed_q[OF oq ns])
  have p: "\<forall>j<n. 0 < diagonal n (matmul n (diag_embed n (map sgn (diagonal n r))) r) ! j"
    using ns by (simp add: new_diagonal_nth)
  show "\<exists>q'. make_orthogonal n q r = map (map Some) q' \<and>
             orthogonal n q' \<and>
             matmul n q' (mat_transpose n q') = eye n \<and>
             (\<forall>j<n. 0 < diagonal n (matmul n (diag_embed n (map sgn (diagonal n r))) r) ! j)"
    using make_orthogonal_nonsingular[OF ns, of q] o p
    by (intro exI[of _ "signed_q n q r"]) (simp add: orthogonal_def)
next
  fix q2 r2
  assume ns: "\<forall>j<n. r ! j ! j \<noteq> 0" and qr2: "is_qr n z q2 r2"
  from qr_unique[OF assms qr2 ns] have
    e: "signed_q n q r = signed_q n q2 r2" and ns2: "\<forall>j<n. r2 ! j ! j \<noteq> 0"
    by simp_all
  show "make_orthogonal n q2 r2 = make_orthogonal n q r"
    by (simp add: make_orthogonal_nonsingular[OF ns] make_orthogonal_nonsingular[OF ns2] e)
next
  assume oz: "orthogonal n z"
  show "make_orthogonal n q r = map (map Some) z"
    using make_orthogonal_nonsingular[OF nonsingular_of_orthogonal[OF assms oz], of q]
          signed_q_of_orthogonal[OF assms oz]
    by simp
qed

lemmas ortho_eval = is_qr_def orthogonal_def square_def upper_triangular_def matmul_def
  mat_transpose_def eye_def diag_embed_def diagonal_def upt_conv_Cons less_Suc_eq
  eval_nat_numeral

theorem make_orthogonal_correct_witness:
  "let z = [[0, 1], [1, 0]]; q = [[0, - 1], [- 1, 0]]; r = [[- 1, 0], [0, - 1]]
   in is_qr 2 z q r \<and> (\<forall>j<2. r ! j ! j \<noteq> 0) \<and> orthogonal 2 z \<and>
      make_orthogonal 2 q r = map (map Some) z \<and>
      (\<exists>q'. make_orthogonal 2 q r = map (map Some) q' \<and> orthogonal 2 q')"
proof -
  let ?z = "[[0, 1], [1, 0]] :: mat"
  let ?q = "[[0, - 1], [- 1, 0]] :: mat"
  let ?r = "[[- 1, 0], [0, - 1]] :: mat"
  have h: "is_qr 2 ?z ?q ?r" by (simp add: ortho_eval)
  have ns: "\<forall>j<2. ?r ! j ! j \<noteq> 0" by (simp add: less_Suc_eq eval_nat_numeral)
  have oz: "orthogonal 2 ?z" by (simp add: ortho_eval)
  note t = make_orthogonal_correct[OF h]
  note a = t[THEN conjunct1, THEN mp, OF ns, THEN conjunct1]
  note i = t[THEN conjunct2, THEN mp, OF oz]
  from a obtain q' where
    "make_orthogonal 2 ?q ?r = map (map Some) q'" "orthogonal 2 q'"
    by (elim exE conjE) (rule that; assumption)
  then have "\<exists>q'. make_orthogonal 2 ?q ?r = map (map Some) q' \<and> orthogonal 2 q'"
    by (intro exI[of _ q'] conjI)
  with h ns oz i show ?thesis unfolding Let_def by (intro conjI)
qed

text \<open>
  The zero matrix factors as the identity times the zero matrix. Both signs are 0, both
  entries of \<^verbatim>\<open>d\<close> are 0, and every entry of the result is the quotient of zero by zero
  times a number: no matrix of numbers is returned, let alone an orthogonal one.
\<close>

theorem make_orthogonal_singular_counterexample:
  "is_qr 2 [[0, 0], [0, 0]] [[1, 0], [0, 1]] [[0, 0], [0, 0]] \<and>
   make_orthogonal 2 [[1, 0], [0, 1]] [[0, 0], [0, 0]] = [[None, None], [None, None]]"
  by (simp add: ortho_eval make_orthogonal_def unit_sign_def Let_def)

section \<open>Properties of the context views\<close>

lemma flat_index_less: "b < n \<Longrightarrow> k < h \<Longrightarrow> b * h + k < n * (h::nat)"
proof -
  assume a: "b < n" "k < h"
  then have "b * h + k < Suc b * h" by simp
  also have "\<dots> \<le> n * h" using a(1) by (intro mult_le_mono1) simp
  finally show ?thesis .
qed

lemma prepare_history_tensor_ok:
  assumes len: "length hs = context_sz" and pos: "0 < context_sz"
      and ok: "\<forall>s \<in> set hs. state_ok (batch_sz * num_matrix_heads cfg) (matrix_dim cfg) s"
  shows "\<exists>t. prepare_history_tensor cfg hs context_sz batch_sz = Inr t \<and>
             (\<forall>b<batch_sz. \<forall>i<context_sz. \<forall>k<num_matrix_heads cfg.
                t ! b ! i ! k = hs ! i ! (b * num_matrix_heads cfg + k))"
proof -
  let ?h = "num_matrix_heads cfg" and ?d = "matrix_dim cfg"
  let ?t = "map (\<lambda>b. map (\<lambda>t. map (\<lambda>k. map (\<lambda>e. hs ! t ! (b * ?h + k) ! e) [0..<?d])
                                     [0..<?h]) [0..<context_sz]) [0..<batch_sz]"
  have ne: "hs \<noteq> []" using len pos by auto
  have p: "prepare_history_tensor cfg hs context_sz batch_sz = Inr ?t"
    using ne len by (simp add: prepare_history_tensor_def Let_def)
  have e: "?t ! b ! i ! k = hs ! i ! (b * ?h + k)"
    if "b < batch_sz" "i < context_sz" "k < ?h" for b i k
  proof -
    have "hs ! i \<in> set hs" using that(2) len by simp
    with ok have s: "state_ok (batch_sz * ?h) ?d (hs ! i)" by blast
    have j: "b * ?h + k < batch_sz * ?h" using that(1,3) by (rule flat_index_less)
    with s have l: "length (hs ! i ! (b * ?h + k)) = ?d" by (simp add: state_ok_def)
    have "?t ! b ! i ! k = map (\<lambda>e. hs ! i ! (b * ?h + k) ! e) [0..<?d]"
      using that by simp
    also have "\<dots> = hs ! i ! (b * ?h + k)"
      using map_nth[of "hs ! i ! (b * ?h + k)"] l by simp
    finally show ?thesis .
  qed
  show ?thesis using p e by blast
qed

lemma local_history:
  assumes "init_vector cfg batch_sz init_type = Inr v0"
  shows "calculate_vectors cfg batch_sz context_sz m am False init_type False =
           Inr (v0 # map (step cfg m am v0) [0..<context_sz])"
  using assms by (simp add: calculate_vectors_def scan_local scan_order_def)

text \<open>
  Claim C6, as the code has it. For a sequence of at least one position, \<^verbatim>\<open>local_l\<close> at
  position \<open>i\<close> holds the local value of position \<open>i + 1\<close> and \<^verbatim>\<open>local_r\<close> at position
  \<open>i\<close> holds the local value of position \<open>i - 1\<close>. At the boundary, that is \<^verbatim>\<open>local_l\<close>
  at the last position and \<^verbatim>\<open>local_r\<close> at the first, both hold the initial state vector
  \<^verbatim>\<open>v_local[0]\<close>: there is no wrap-around to the opposite end of the sequence. The local
  value of position \<open>i\<close> is the single step from the initial vector with \<^verbatim>\<open>m[i]\<close>.
\<close>

theorem local_shift_views:
  assumes init: "vector_init_direction cfg = ''one'' \<and> 0 < matrix_dim cfg
                 \<or> vector_init_direction cfg = ''all''"
      and shape: "well_shaped cfg batch_sz context_sz m"
      and pos: "0 < context_sz"
      and sel: "set [''local'', ''local_l'', ''local_r''] \<inter> set (use_for_context cfg) \<noteq> {}"
  shows "\<exists>v0 av' v_local v_local_l v_local_r.
           init_vector cfg batch_sz (vector_init_direction cfg) = Inr v0 \<and>
           local_block cfg batch_sz context_sz m am av = Inr av' \<and>
           av' ''local'' = Some (Tuple [v_local]) \<and>
           av' ''local_l'' = Some (Tensor v_local_l) \<and>
           av' ''local_r'' = Some (Tensor v_local_r) \<and>
           (\<forall>b<batch_sz. \<forall>i<context_sz. \<forall>k<num_matrix_heads cfg.
              v_local ! b ! i ! k = step cfg m am v0 i ! (b * num_matrix_heads cfg + k) \<and>
              v_local_l ! b ! i ! k =
                (if i = context_sz - 1 then v0 ! (b * num_matrix_heads cfg + k)
                 else v_local ! b ! (i + 1) ! k) \<and>
              v_local_r ! b ! i ! k =
                (if i = 0 then v0 ! (b * num_matrix_heads cfg + k)
                 else v_local ! b ! (i - 1) ! k))"
proof -
  let ?n = "batch_sz * num_matrix_heads cfg" and ?d = "matrix_dim cfg" and ?h = "num_matrix_heads cfg"
  let ?T = context_sz
  from init_vector_ok[OF init] obtain v0 where
    v0: "init_vector cfg batch_sz (vector_init_direction cfg) = Inr v0" and ok0: "state_ok ?n ?d v0"
    by blast
  let ?st = "step cfg m am v0"
  let ?hist = "v0 # map ?st [0..<?T]"
  let ?loc = "map ?st [0..<?T]"
  let ?r = "v0 # map ?st [0..<?T - 1]"
  let ?l = "map ?st [1..<?T] @ [v0]"
  have c: "calculate_vectors cfg batch_sz ?T m am False (vector_init_direction cfg) False = Inr ?hist"
    by (rule local_history[OF v0])
  have tl: "tl ?hist = ?loc" by simp
  have bl: "butlast ?hist = ?r"
  proof -
    have "[0..<?T] = [0..<?T - 1] @ [?T - 1]"
      using pos by (metis Suc_diff_1 upt_Suc_append zero_le)
    then have "?hist = ?r @ [?st (?T - 1)]" by simp
    then show ?thesis by (metis butlast_snoc)
  qed
  have dr: "drop 2 ?hist @ [?hist ! 0] = ?l"
  proof -
    have "drop 2 ?hist = drop 1 (map ?st [0..<?T])" by (simp add: numeral_2_eq_2)
    also have "\<dots> = map ?st [1..<?T]" by (simp add: drop_map)
    finally show ?thesis by simp
  qed
  have stok: "state_ok ?n ?d (?st i)" if "i < ?T" for i
  proof -
    have "m ! i \<in> set m" using that shape by (simp add: well_shaped_def)
    with shape have "mats_ok ?n ?d (m ! i)" by (simp add: well_shaped_def)
    from step_shape[OF this ok0 refl] show ?thesis .
  qed
  have ok_loc: "\<forall>s \<in> set ?loc. state_ok ?n ?d s" using stok by auto
  have ok_r: "\<forall>s \<in> set ?r. state_ok ?n ?d s" using stok ok0 by auto
  have ok_l: "\<forall>s \<in> set ?l. state_ok ?n ?d s" using stok ok0 by auto
  have len_loc: "length ?loc = ?T" by simp
  have len_r: "length ?r = ?T" using pos by simp
  have len_l: "length ?l = ?T" using pos by simp
  from prepare_history_tensor_ok[OF len_loc pos ok_loc] obtain tloc where
    tloc: "prepare_history_tensor cfg ?loc ?T batch_sz = Inr tloc"
    and eloc: "\<And>b i k. b < batch_sz \<Longrightarrow> i < ?T \<Longrightarrow> k < ?h \<Longrightarrow> tloc ! b ! i ! k = ?loc ! i ! (b * ?h + k)"
    by blast
  from prepare_history_tensor_ok[OF len_l pos ok_l] obtain tl' where
    tl': "prepare_history_tensor cfg ?l ?T batch_sz = Inr tl'"
    and el: "\<And>b i k. b < batch_sz \<Longrightarrow> i < ?T \<Longrightarrow> k < ?h \<Longrightarrow> tl' ! b ! i ! k = ?l ! i ! (b * ?h + k)"
    by blast
  from prepare_history_tensor_ok[OF len_r pos ok_r] obtain tr where
    tr: "prepare_history_tensor cfg ?r ?T batch_sz = Inr tr"
    and er: "\<And>b i k. b < batch_sz \<Longrightarrow> i < ?T \<Longrightarrow> k < ?h \<Longrightarrow> tr ! b ! i ! k = ?r ! i ! (b * ?h + k)"
    by blast
  let ?av = "av(''local'' \<mapsto> Tuple [tloc], ''local_r'' \<mapsto> Tensor tr, ''local_l'' \<mapsto> Tensor tl')"
  have lb: "local_block cfg batch_sz ?T m am av = Inr ?av"
    unfolding local_block_def using sel
    by (simp only: if_True c sum.case Let_def tl bl dr tloc tl' tr) simp
  have v1: "tloc ! b ! i ! k = ?st i ! (b * ?h + k)"
    if "b < batch_sz" "i < ?T" "k < ?h" for b i k
    using eloc[OF that] that(2) by simp
  have v2: "tl' ! b ! i ! k = (if i = ?T - 1 then v0 ! (b * ?h + k) else tloc ! b ! (i + 1) ! k)"
    if "b < batch_sz" "i < ?T" "k < ?h" for b i k
  proof (cases "i = ?T - 1")
    case True
    have "?l ! i = v0" using True by (simp add: nth_append)
    with el[OF that] True show ?thesis by simp
  next
    case False
    with that(2) have i: "i + 1 < ?T" by simp
    then have "i < context_sz - 1" by simp
    then have "?l ! i = ?st (i + 1)" by (simp add: nth_append)
    with el[OF that] eloc[OF that(1) i that(3)] i False show ?thesis by simp
  qed
  have v3: "tr ! b ! i ! k = (if i = 0 then v0 ! (b * ?h + k) else tloc ! b ! (i - 1) ! k)"
    if "b < batch_sz" "i < ?T" "k < ?h" for b i k
  proof (cases i)
    case 0
    with er[OF that] show ?thesis by simp
  next
    case (Suc j)
    with that(2) have j: "j < ?T" "j < ?T - 1" by simp_all
    have "?r ! i = ?st j" using Suc j by simp
    with er[OF that] eloc[OF that(1) j(1) that(3)] j Suc show ?thesis by simp
  qed
  show ?thesis
  proof (intro exI conjI allI impI)
    show "init_vector cfg batch_sz (vector_init_direction cfg) = Inr v0" by (rule v0)
    show "local_block cfg batch_sz ?T m am av = Inr ?av" by (rule lb)
    show "?av ''local'' = Some (Tuple [tloc])" by simp
    show "?av ''local_l'' = Some (Tensor tl')" by simp
    show "?av ''local_r'' = Some (Tensor tr)" by simp
  next
    fix b i k assume "b < batch_sz" "i < ?T" "k < ?h"
    then show "tloc ! b ! i ! k = ?st i ! (b * ?h + k)" by (rule v1)
  next
    fix b i k assume "b < batch_sz" "i < ?T" "k < ?h"
    then show "tl' ! b ! i ! k = (if i = ?T - 1 then v0 ! (b * ?h + k) else tloc ! b ! (i + 1) ! k)"
      by (rule v2)
  next
    fix b i k assume "b < batch_sz" "i < ?T" "k < ?h"
    then show "tr ! b ! i ! k = (if i = 0 then v0 ! (b * ?h + k) else tloc ! b ! (i - 1) ! k)"
      by (rule v3)
  qed
qed

lemmas fw_eval = forward_def lr_block_def rl_block_def local_block_def prepare_history_tensor_def
  repeat_global_def concatenate_def cat_last_def assemble_outputs_def example_modules_def
  example_config_def eval_nat_numeral

theorem local_shift_views_witness:
  "let cfg = example_config [''local_l'', ''local_r''] False False;
       m = [[[[2]]], [[[3]]]]
   in \<exists>v0 av' v_local v_local_l v_local_r.
        init_vector cfg 1 (vector_init_direction cfg) = Inr v0 \<and>
        local_block cfg 1 2 m None Map.empty = Inr av' \<and>
        av' ''local'' = Some (Tuple [v_local]) \<and>
        av' ''local_l'' = Some (Tensor v_local_l) \<and>
        av' ''local_r'' = Some (Tensor v_local_r) \<and>
        (\<forall>b<1. \<forall>i<2. \<forall>k<num_matrix_heads cfg.
           v_local ! b ! i ! k = step cfg m None v0 i ! (b * num_matrix_heads cfg + k) \<and>
           v_local_l ! b ! i ! k =
             (if i = 2 - 1 then v0 ! (b * num_matrix_heads cfg + k)
              else v_local ! b ! (i + 1) ! k) \<and>
           v_local_r ! b ! i ! k =
             (if i = 0 then v0 ! (b * num_matrix_heads cfg + k)
              else v_local ! b ! (i - 1) ! k))"
  unfolding Let_def
  by (rule local_shift_views)
     (simp_all add: example_config_def well_shaped_def mats_ok_def)

text \<open>
  With the matrices 2 and 3 the local view is \<open>(2, 3)\<close>, \<^verbatim>\<open>local_l\<close> is \<open>(3, 1)\<close> and
  \<^verbatim>\<open>local_r\<close> is \<open>(1, 2)\<close>: the boundary entries are the initial vector 1, not the local
  value of the opposite end.
\<close>

theorem local_wrap_around_counterexample:
  "view_of (local_block (example_config [''local_l'', ''local_r''] False False) 1 2
                        [[[[2]]], [[[3]]]] None Map.empty) ''local''
     = Some (Tuple [[[[[2]], [[3]]]]]) \<and>
   view_of (local_block (example_config [''local_l'', ''local_r''] False False) 1 2
                        [[[[2]]], [[[3]]]] None Map.empty) ''local_l''
     = Some (Tensor [[[[3]], [[1]]]]) \<and>
   view_of (local_block (example_config [''local_l'', ''local_r''] False False) 1 2
                        [[[[2]]], [[[3]]]] None Map.empty) ''local_r''
     = Some (Tensor [[[[1]], [[2]]]]) \<and>
   [[[[3]], [[1]]]] ! 0 ! 1 \<noteq> [[[[2::real]], [[3]]]] ! 0 ! 0 \<and>
   [[[[1]], [[2]]]] ! 0 ! 0 \<noteq> [[[[2::real]], [[3]]]] ! 0 ! 1"
  by (simp add: view_of_def fw_eval cv_eval)

text \<open>
  Claim C7. \<^verbatim>\<open>available_vectors["local"]\<close> is bound to the tuple \<^verbatim>\<open>(v_local,)\<close>, so with
  \<^verbatim>\<open>use_for_context = ["local"]\<close> the list given to \<^verbatim>\<open>torch.concatenate\<close> holds a tuple
  and the forward pass ends in a type error instead of returning the local view.
\<close>

theorem forward_local_type_error:
  "forward (example_config [''local''] False False) example_modules 1 2 ()
           None (None :: unit option) None None (None :: unit option) False
     = Inl TypeError"
  by (simp add: fw_eval cv_eval)

lemma tensors_of_Tuple: "Tuple ts \<in> set xs \<Longrightarrow> tensors_of xs = Inl TypeError"
  by (induction xs rule: tensors_of.induct) (auto split: sum.splits)

lemma lookup_context_mem:
  "lookup_context av ss = Inr xs \<Longrightarrow> s \<in> set ss \<Longrightarrow> the (av s) \<in> set xs"
  by (induction ss arbitrary: xs) (auto split: option.splits sum.splits)

text \<open>
  Claim C10. When a forward call of the Convnet matrix layer with
  \<^verbatim>\<open>rl_lr_matrix_different\<close> and \<^verbatim>\<open>output_matrices\<close> returns, the matrix tensor in its
  outputs is the raw matrices of the left-to-right encoder followed, along the position
  axis, by those of the right-to-left encoder: \<open>2 * T\<close> positions.
\<close>

theorem output_matrices_concatenated:
  assumes "forward cfg self batch_sz context_sz hidden_states attention_mask head_mask
                   encoder_hidden_states encoder_attention_mask past_vector True = Inr out"
      and "rl_lr_matrix_different cfg"
      and "matrix_encoder_lr self hidden_states = Inr (m_norm_lr, m_lr)"
      and "matrix_encoder_rl self hidden_states = Inr (m_norm_rl, m_rl)"
      and "length m_lr = context_sz" and "length m_rl = context_sz"
  shows "output_m out = Some (m_lr @ m_rl) \<and> length (m_lr @ m_rl) = 2 * context_sz"
  using assms
  by (auto simp: forward_def assemble_outputs_def Let_def split: if_splits sum.splits prod.splits)

theorem output_matrices_concatenated_witness:
  "forward (example_config [''lr'', ''rl''] True False) example_modules 1 2 ()
           None (None :: unit option) None None (None :: unit option) True
     = Inr \<lparr>context_output = [[[2, 35], [6, 7]]],
            output_m = Some ([[[[[2]]]], [[[[3]]]]] @ [[[[[5]]]], [[[[7]]]]]),
            output_v_global = None\<rparr> \<and>
   length ([[[[[2]]]], [[[[3]]]]] @ [[[[[5::real]]]], [[[[7]]]]]) = 2 * 2"
proof -
  have f: "forward (example_config [''lr'', ''rl''] True False) example_modules 1 2 ()
           None (None :: unit option) None None (None :: unit option) True
     = Inr \<lparr>context_output = [[[2, 35], [6, 7]]],
            output_m = Some [[[[[2]]]], [[[[3]]]], [[[[5]]]], [[[[7]]]]],
            output_v_global = None\<rparr>"
    by (simp add: fw_eval cv_eval)
  have c: "rl_lr_matrix_different (example_config [''lr'', ''rl''] True False)"
    by (simp add: example_config_def)
  have a: "matrix_encoder_lr example_modules () = Inr ([[[[[2]]]], [[[[3]]]]], [[[[[2]]]], [[[[3]]]]])"
    and b: "matrix_encoder_rl example_modules () = Inr ([[[[[5]]]], [[[[7]]]]], [[[[[5]]]], [[[[7]]]]])"
    by (simp_all add: example_modules_def)
  from output_matrices_concatenated[OF f c a b] f show ?thesis by simp
qed

lemma local_block_stores_tuple:
  assumes "''local'' \<in> set (use_for_context cfg)"
      and "local_block cfg batch_sz context_sz m am av = Inr av'"
  shows "\<exists>ts. av' ''local'' = Some (Tuple ts)"
proof -
  from assms(1) have sel: "set [''local'', ''local_l'', ''local_r''] \<inter> set (use_for_context cfg) \<noteq> {}"
    by auto
  from assms(2) show ?thesis
    unfolding local_block_def using sel
    by (auto simp: Let_def split: sum.splits)
qed

text \<open>
  The type error of claim C7 does not depend on the input: no configuration that selects
  \<^verbatim>\<open>"local"\<close> lets the forward pass return.
\<close>

lemma forward_local_never_returns:
  assumes "''local'' \<in> set (use_for_context cfg)"
  shows "isl (forward cfg self batch_sz context_sz hidden_states attention_mask head_mask
                      encoder_hidden_states encoder_attention_mask past_vector output_matrices)"
proof (rule ccontr)
  assume "\<not> ?thesis"
  then obtain out where
    out: "forward cfg self batch_sz context_sz hidden_states attention_mask head_mask
                  encoder_hidden_states encoder_attention_mask past_vector output_matrices
            = Inr out"
    by (metis sum.collapse(2))
  from out obtain m av2 av ctx x where
    lb: "local_block cfg batch_sz context_sz m attention_mask av2 = Inr av" and
    lc: "lookup_context av (use_for_context cfg) = Inr ctx" and
    cc: "concatenate ctx = Inr x"
    unfolding forward_def
    by (auto split: if_splits sum.splits prod.splits)
  from local_block_stores_tuple[OF assms lb] obtain ts where ts: "av ''local'' = Some (Tuple ts)"
    by blast
  from lookup_context_mem[OF lc assms] ts have "Tuple ts \<in> set ctx" by simp
  then have "tensors_of ctx = Inl TypeError" by (rule tensors_of_Tuple)
  with cc show False by (simp add: concatenate_def)
qed

section \<open>Properties of cache reuse\<close>

lemma forward_past_vector:
  assumes "past_vector \<noteq> None"
  shows "forward cfg self batch_sz context_sz hidden_states attention_mask head_mask
                 encoder_hidden_states encoder_attention_mask past_vector output_matrices
           = Inl (AssertionError ''Not implemented'')"
  using assms by (simp add: forward_def)

lemma layer_forward_past_vector:
  assumes "past_vector \<noteq> None"
  shows "layer_forward cfg self batch_sz context_sz hidden_states attention_mask head_mask
                       encoder_hidden_states encoder_attention_mask past_vector output_matrices
           = Inl (AssertionError ''Not implemented'')"
  using assms by (simp add: layer_forward_def matrix_block_forward_def forward_def)

lemma layer_forward_returns_matrices:
  assumes "layer_forward cfg self batch_sz context_sz hidden_states attention_mask head_mask
                         encoder_hidden_states encoder_attention_mask past_vector True = Inr out"
  shows "block_m out \<noteq> None"
  using assms
  by (auto simp: layer_forward_def matrix_block_forward_def forward_def assemble_outputs_def
                 Let_def split: if_splits sum.splits prod.splits)

lemma encoder_layers_use_cache:
  assumes "use_cache" "\<not> checkpointing" "ls \<noteq> []"
  shows "isl (encoder_layers cfg checkpointing ls i batch_sz context_sz hidden_states
                attention_mask head_mask encoder_hidden_states encoder_attention_mask
                past_vectors use_cache output_matrices output_hidden_states all_hidden all_m)"
proof -
  from assms(3) obtain l rest where ls: "ls = l # rest" by (cases ls) auto
  show ?thesis
    unfolding ls using assms(1,2)
    by (simp add: Let_def split: sum.splits)
qed

lemma encoder_layers_past_vectors:
  assumes "past_vectors \<noteq> None" "ls \<noteq> []"
  shows "isl (encoder_layers cfg checkpointing ls i batch_sz context_sz hidden_states
                attention_mask head_mask encoder_hidden_states encoder_attention_mask
                past_vectors use_cache output_matrices output_hidden_states all_hidden all_m)"
proof -
  from assms(2) obtain l rest where ls: "ls = l # rest" by (cases ls) auto
  from assms(1) obtain ps where ps: "past_vectors = Some ps" by auto
  show ?thesis
    unfolding ls ps
    by (auto simp: Let_def index_optional_def layer_forward_past_vector split: sum.splits)
qed

lemma encoder_layers_checkpointing:
  "encoder_layers cfg True ls i batch_sz context_sz hidden_states attention_mask head_mask
     encoder_hidden_states encoder_attention_mask past_vectors True output_matrices
     output_hidden_states all_hidden all_m =
   encoder_layers cfg True ls i batch_sz context_sz hidden_states attention_mask head_mask
     encoder_hidden_states encoder_attention_mask past_vectors False output_matrices
     output_hidden_states all_hidden all_m"
  by (cases ls) (simp_all add: Let_def)

text \<open>
  Claim C9, as the code has it. A \<^verbatim>\<open>past_vector\<close> that is not \<^verbatim>\<open>None\<close> makes the
  matrix layer fail on its \<^verbatim>\<open>"Not implemented"\<close> assertion, and cached vectors given to an
  encoder with at least one layer make its forward pass fail. With \<^verbatim>\<open>use_cache\<close> true, an
  encoder with at least one layer does not return a result, unless gradient checkpointing
  is on in training mode: there \<^verbatim>\<open>use_cache\<close> is reset to false and the pass is the one
  without cache.
\<close>

theorem cache_reuse_fails:
  "(past_vector \<noteq> None \<longrightarrow>
      forward cfg mods batch_sz context_sz hidden_states attention_mask layer_head_mask
              encoder_hidden_states encoder_attention_mask past_vector output_matrices
        = Inl (AssertionError ''Not implemented'')) \<and>
   (past_vectors \<noteq> None \<and> layer self \<noteq> [] \<longrightarrow>
      isl (encoder_forward cfg self batch_sz context_sz hidden_states attention_mask head_mask
             encoder_hidden_states encoder_attention_mask past_vectors use_cache
             output_matrices output_hidden_states)) \<and>
   (use_cache \<and> layer self \<noteq> [] \<and> \<not> (gradient_checkpointing self \<and> training self) \<longrightarrow>
      isl (encoder_forward cfg self batch_sz context_sz hidden_states attention_mask head_mask
             encoder_hidden_states encoder_attention_mask past_vectors use_cache
             output_matrices output_hidden_states)) \<and>
   (gradient_checkpointing self \<and> training self \<longrightarrow>
      encoder_forward cfg self batch_sz context_sz hidden_states attention_mask head_mask
        encoder_hidden_states encoder_attention_mask past_vectors True
        output_matrices output_hidden_states =
      encoder_forward cfg self batch_sz context_sz hidden_states attention_mask head_mask
        encoder_hidden_states encoder_attention_mask past_vectors False
        output_matrices output_hidden_states)"
proof (intro conjI impI)
  assume "past_vector \<noteq> None"
  then show "forward cfg mods batch_sz context_sz hidden_states attention_mask layer_head_mask
              encoder_hidden_states encoder_attention_mask past_vector output_matrices
        = Inl (AssertionError ''Not implemented'')"
    by (rule forward_past_vector)
next
  assume a: "past_vectors \<noteq> None \<and> layer self \<noteq> []"
  let ?h = "case input_convnet self of None \<Rightarrow> hidden_states | Some f \<Rightarrow> f hidden_states"
  from a have
    "isl (encoder_layers cfg (gradient_checkpointing self \<and> training self) (layer self) 0
            batch_sz context_sz ?h attention_mask head_mask encoder_hidden_states
            encoder_attention_mask past_vectors use_cache output_matrices output_hidden_states
            [] [])"
    by (intro encoder_layers_past_vectors) simp_all
  then show "isl (encoder_forward cfg self batch_sz context_sz hidden_states attention_mask
             head_mask encoder_hidden_states encoder_attention_mask past_vectors use_cache
             output_matrices output_hidden_states)"
    by (auto simp: encoder_forward_def Let_def split: sum.splits)
next
  assume a: "use_cache \<and> layer self \<noteq> [] \<and> \<not> (gradient_checkpointing self \<and> training self)"
  let ?h = "case input_convnet self of None \<Rightarrow> hidden_states | Some f \<Rightarrow> f hidden_states"
  from a have
    "isl (encoder_layers cfg (gradient_checkpointing self \<and> training self) (layer self) 0
            batch_sz context_sz ?h attention_mask head_mask encoder_hidden_states
            encoder_attention_mask past_vectors use_cache output_matrices output_hidden_states
            [] [])"
    by (intro encoder_layers_use_cache) simp_all
  then show "isl (encoder_forward cfg self batch_sz context_sz hidden_states attention_mask
             head_mask encoder_hidden_states encoder_attention_mask past_vectors use_cache
             output_matrices output_hidden_states)"
    by (auto simp: encoder_forward_def Let_def split: sum.splits)
next
  assume "gradient_checkpointing self \<and> training self"
  then show "encoder_forward cfg self batch_sz context_sz hidden_states attention_mask head_mask
        encoder_hidden_states encoder_attention_mask past_vectors True
        output_matrices output_hidden_states =
      encoder_forward cfg self batch_sz context_sz hidden_states attention_mask head_mask
        encoder_hidden_states encoder_attention_mask past_vectors False
        output_matrices output_hidden_states"
    by (simp add: encoder_forward_def encoder_layers_checkpointing)
qed

lemmas enc_eval = encoder_forward_def layer_forward_def matrix_block_forward_def
  index_optional_def example_layer_def resolve_use_cache_def

theorem cache_reuse_fails_witness:
  "forward (example_config [''lr''] False True) example_modules 1 2 ()
           None (None :: unit option) None None (Some ()) False
     = Inl (AssertionError ''Not implemented'') \<and>
   isl (encoder_forward (example_config [''lr''] False True)
          \<lparr>input_convnet = None, layer = [example_layer], gradient_checkpointing = False,
           training = True\<rparr>
          1 2 () None (None :: unit option list option) None None (Some [()]) True False False) \<and>
   isl (encoder_forward (example_config [''lr''] False True)
          \<lparr>input_convnet = None, layer = [example_layer], gradient_checkpointing = False,
           training = True\<rparr>
          1 2 () None (None :: unit option list option) None None (None :: unit list option)
          True False False) \<and>
   encoder_forward (example_config [''lr''] False True)
      \<lparr>input_convnet = None, layer = [example_layer], gradient_checkpointing = True,
       training = True\<rparr>
      1 2 () None (None :: unit option list option) None None (None :: unit list option)
      True False False =
   encoder_forward (example_config [''lr''] False True)
      \<lparr>input_convnet = None, layer = [example_layer], gradient_checkpointing = True,
       training = True\<rparr>
      1 2 () None (None :: unit option list option) None None (None :: unit list option)
      False False False"
  using cache_reuse_fails
          [where past_vector = "Some ()" and cfg = "example_config [''lr''] False True"
             and mods = example_modules and batch_sz = 1 and context_sz = 2
             and hidden_states = "()" and attention_mask = None
             and layer_head_mask = "None :: unit option" and encoder_hidden_states = None
             and encoder_attention_mask = None and output_matrices = False
             and past_vectors = "Some [()]"
             and self = "\<lparr>input_convnet = None, layer = [example_layer],
                           gradient_checkpointing = False, training = True\<rparr>"
             and head_mask = "None :: unit option list option" and use_cache = True
             and output_hidden_states = False]
        cache_reuse_fails
          [where past_vector = "Some ()" and cfg = "example_config [''lr''] False True"
             and mods = example_modules and batch_sz = 1 and context_sz = 2
             and hidden_states = "()" and attention_mask = None
             and layer_head_mask = "None :: unit option" and encoder_hidden_states = None
             and encoder_attention_mask = None and output_matrices = False
             and past_vectors = "None :: unit list option"
             and self = "\<lparr>input_convnet = None, layer = [example_layer],
                           gradient_checkpointing = False, training = True\<rparr>"
             and head_mask = "None :: unit option list option" and use_cache = True
             and output_hidden_states = False]
        cache_reuse_fails
          [where past_vector = "Some ()" and cfg = "example_config [''lr''] False True"
             and mods = example_modules and batch_sz = 1 and context_sz = 2
             and hidden_states = "()" and attention_mask = None
             and layer_head_mask = "None :: unit option" and encoder_hidden_states = None
             and encoder_attention_mask = None and output_matrices = False
             and past_vectors = "None :: unit list option"
             and self = "\<lparr>input_convnet = None, layer = [example_layer],
                           gradient_checkpointing = True, training = True\<rparr>"
             and head_mask = "None :: unit option list option" and use_cache = True
             and output_hidden_states = False]
  by simp

text \<open>
  In the decoder configuration \<^verbatim>\<open>use_cache\<close> resolves to true from the configuration's
  default, and the encoder still returns a result under gradient checkpointing in
  training mode, and when it has no layers.
\<close>

theorem use_cache_returns_counterexample:
  "resolve_use_cache True None True \<and>
   encoder_forward (example_config [''lr''] False True)
      \<lparr>input_convnet = None, layer = [example_layer], gradient_checkpointing = True,
       training = True\<rparr>
      1 2 () None (None :: unit option list option) None None (None :: unit list option)
      (resolve_use_cache True None True) False False
     = Inr \<lparr>last_hidden_state = (), all_hidden_states = None, all_matrices = None\<rparr> \<and>
   encoder_forward (example_config [''lr''] False True)
      \<lparr>input_convnet = None, layer = [], gradient_checkpointing = False, training = False\<rparr>
      1 2 () None (None :: unit option list option) None None (None :: unit list option)
      (resolve_use_cache True None True) False False
     = Inr \<lparr>last_hidden_state = (), all_hidden_states = None, all_matrices = None\<rparr>"
  by (simp add: enc_eval fw_eval cv_eval)

text \<open>Without checkpointing the same call ends in the type error raised after layer 0.\<close>

lemma use_cache_type_error_example:
  "encoder_forward (example_config [''lr''] False True)
      \<lparr>input_convnet = None, layer = [example_layer], gradient_checkpointing = False,
       training = True\<rparr>
      1 2 () None (None :: unit option list option) None None (None :: unit list option)
      True False False
     = Inl TypeError"
  by (simp add: enc_eval fw_eval cv_eval)

section \<open>Properties of the preheat schedule\<close>

lemma unitary_loop_ok:
  "t = ''CrossEntropy'' \<or> t = ''MSE'' \<Longrightarrow> unitary_loop t acc xs = Inr (acc + sum_list xs)"
  by (induction xs arbitrary: acc) auto

lemma masked_lm_forward_ok:
  assumes "labels_given inp" "losses_defined cfg inp"
  shows "\<exists>r. masked_lm_forward cfg c inp = Inr (if c > 0 then c - 1 else c, Some r) \<and>
             masked_lm_loss r = (if c > 0 then 0 else cross_entropy inp) \<and>
             loss r = masked_lm_loss r + auxiliary_loss cfg inp"
  using assms
  by (auto simp: masked_lm_forward_def losses_defined_def norm_loss_def unitary_loss_def
                 auxiliary_loss_def unitary_loop_ok Let_def split: option.splits)

lemma forward_calls_ok:
  assumes "\<forall>inp \<in> set inps. labels_given inp \<and> losses_defined cfg inp" "0 \<le> c"
  shows "\<exists>outs. forward_calls cfg c inps = Inr (max 0 (c - int (length inps)), outs) \<and>
           length outs = length inps \<and>
           (\<forall>n<length inps. \<exists>r. outs ! n = Some r \<and>
               masked_lm_loss r = (if int n < c then 0 else cross_entropy (inps ! n)) \<and>
               loss r = masked_lm_loss r + auxiliary_loss cfg (inps ! n))"
  using assms
proof (induction inps arbitrary: c)
  case Nil
  then show ?case by simp
next
  case (Cons inp inps)
  let ?c' = "if c > 0 then c - 1 else c"
  from Cons.prems have a: "labels_given inp" "losses_defined cfg inp" by simp_all
  from masked_lm_forward_ok[OF a, of c] obtain r where
    r: "masked_lm_forward cfg c inp = Inr (?c', Some r)"
       "masked_lm_loss r = (if c > 0 then 0 else cross_entropy inp)"
       "loss r = masked_lm_loss r + auxiliary_loss cfg inp"
    by blast
  have "\<forall>inp \<in> set inps. labels_given inp \<and> losses_defined cfg inp" "0 \<le> ?c'"
    using Cons.prems by auto
  from Cons.IH[OF this] obtain outs where
    o: "forward_calls cfg ?c' inps = Inr (max 0 (?c' - int (length inps)), outs)"
       "length outs = length inps"
       "\<And>n. n < length inps \<Longrightarrow> \<exists>r. outs ! n = Some r \<and>
               masked_lm_loss r = (if int n < ?c' then 0 else cross_entropy (inps ! n)) \<and>
               loss r = masked_lm_loss r + auxiliary_loss cfg (inps ! n)"
    by blast
  have fin: "max 0 (?c' - int (length inps)) = max 0 (c - int (length (inp # inps)))"
    using Cons.prems(2) by auto
  have c: "forward_calls cfg c (inp # inps) = Inr (max 0 (c - int (length (inp # inps))), Some r # outs)"
    using r(1) o(1) fin by simp
  have n: "\<exists>r'. (Some r # outs) ! n = Some r' \<and>
               masked_lm_loss r' = (if int n < c then 0 else cross_entropy ((inp # inps) ! n)) \<and>
               loss r' = masked_lm_loss r' + auxiliary_loss cfg ((inp # inps) ! n)"
    if "n < length (inp # inps)" for n
  proof (cases n)
    case 0
    then show ?thesis using r(2,3) by simp
  next
    case (Suc k)
    with that have "k < length inps" by simp
    from o(3)[OF this] Suc Cons.prems(2) show ?thesis by (auto split: if_splits)
  qed
  show ?case using c o(2) n by (intro exI[of _ "Some r # outs"]) simp
qed

text \<open>
  Claim C5. Let \<^verbatim>\<open>matrix_norm_preheat_steps = N\<close> with \<open>N \<ge> 0\<close>, and consider successive
  forward calls with labels whose auxiliary losses are computable. Every call returns.
  Each of the first \<open>N\<close> calls reports \<^verbatim>\<open>masked_lm_loss = 0\<close> and a total loss that is
  the weighted auxiliary losses alone; every later call reports the cross entropy itself,
  so call \<open>N + 1\<close> reports a nonzero primary loss whenever its cross entropy is nonzero.
  After \<open>k\<close> calls the counter is \<open>max 0 (N - k)\<close>: it never increases, is never
  negative, is 0 after \<open>N\<close> calls and stays 0.
\<close>

theorem preheat_schedule:
  assumes "0 \<le> N"
      and "\<forall>inp \<in> set inps. labels_given inp \<and> losses_defined cfg inp"
  shows "\<exists>c outs.
           forward_calls cfg N inps = Inr (c, outs) \<and>
           length outs = length inps \<and>
           (\<forall>n<length inps. \<exists>r.
              outs ! n = Some r \<and>
              (int n < N \<longrightarrow> masked_lm_loss r = 0 \<and> loss r = auxiliary_loss cfg (inps ! n)) \<and>
              (N \<le> int n \<longrightarrow> masked_lm_loss r = cross_entropy (inps ! n)) \<and>
              (int n = N \<and> cross_entropy (inps ! n) \<noteq> 0 \<longrightarrow> masked_lm_loss r \<noteq> 0)) \<and>
           (\<forall>k\<le>length inps. \<exists>outs'.
              forward_calls cfg N (take k inps) = Inr (max 0 (N - int k), outs'))"
proof -
  from forward_calls_ok[OF assms(2,1)] obtain outs where
    o: "forward_calls cfg N inps = Inr (max 0 (N - int (length inps)), outs)"
       "length outs = length inps"
       "\<And>n. n < length inps \<Longrightarrow> \<exists>r. outs ! n = Some r \<and>
               masked_lm_loss r = (if int n < N then 0 else cross_entropy (inps ! n)) \<and>
               loss r = masked_lm_loss r + auxiliary_loss cfg (inps ! n)"
    by blast
  have per: "\<exists>r. outs ! n = Some r \<and>
              (int n < N \<longrightarrow> masked_lm_loss r = 0 \<and> loss r = auxiliary_loss cfg (inps ! n)) \<and>
              (N \<le> int n \<longrightarrow> masked_lm_loss r = cross_entropy (inps ! n)) \<and>
              (int n = N \<and> cross_entropy (inps ! n) \<noteq> 0 \<longrightarrow> masked_lm_loss r \<noteq> 0)"
    if "n < length inps" for n
  proof -
    from o(3)[OF that] obtain r where
      r: "outs ! n = Some r"
         "masked_lm_loss r = (if int n < N then 0 else cross_entropy (inps ! n))"
         "loss r = masked_lm_loss r + auxiliary_loss cfg (inps ! n)"
      by blast
    show ?thesis using r by (intro exI[of _ r]) auto
  qed
  have pre: "\<exists>outs'. forward_calls cfg N (take k inps) = Inr (max 0 (N - int k), outs')"
    if "k \<le> length inps" for k
  proof -
    have "\<forall>inp \<in> set (take k inps). labels_given inp \<and> losses_defined cfg inp"
      using assms(2) by (auto dest: in_set_takeD)
    from forward_calls_ok[OF this assms(1)] that show ?thesis
      by (auto simp: min_def)
  qed
  show ?thesis
    using o(1,2) per pre by (intro exI[of _ "max 0 (N - int (length inps))"] exI[of _ outs]) simp
qed

theorem preheat_schedule_witness:
  "let cfg = \<lparr>matrix_norm_loss_type = Some ''MSE'', matrix_norm_loss_axis = [-1],
              matrix_norm_loss_k = 1, matrix_unitary_loss_type = Some ''CrossEntropy'',
              matrix_unitary_loss_k = 1\<rparr>;
       inp = \<lparr>labels_given = True, cross_entropy = 5, norm_mse = 2, unitary_terms = [3, 4]\<rparr>;
       inps = [inp, inp, inp]
   in \<exists>c outs.
        forward_calls cfg 2 inps = Inr (c, outs) \<and>
        length outs = length inps \<and>
        (\<forall>n<length inps. \<exists>r.
           outs ! n = Some r \<and>
           (int n < 2 \<longrightarrow> masked_lm_loss r = 0 \<and> loss r = auxiliary_loss cfg (inps ! n)) \<and>
           (2 \<le> int n \<longrightarrow> masked_lm_loss r = cross_entropy (inps ! n)) \<and>
           (int n = 2 \<and> cross_entropy (inps ! n) \<noteq> 0 \<longrightarrow> masked_lm_loss r \<noteq> 0)) \<and>
        (\<forall>k\<le>length inps. \<exists>outs'.
           forward_calls cfg 2 (take k inps) = Inr (max 0 (2 - int k), outs'))"
  unfolding Let_def
  by (rule preheat_schedule) (simp_all add: losses_defined_def)


end
